theory Spec2Isabelle
  imports Main "HOL-Library.Word"
begin

unbundle bit_operations_syntax

section \<open>Predistorter (MemlessPoly): lookup-table variant\<close>

text \<open>
  \<^verbatim>\<open>apply_lut\<close> computes, for every sample, the 32-bit value
  \<^verbatim>\<open>scaled_in = lrintf(in_mag * scalefactor)\<close> and the table index
  \<^verbatim>\<open>const uint8_t lut_ix = (scaled_in >> 27)\<close>.
  The floating-point product and its rounding are not modelled: \<open>lrintf\<close> returns a
  \<open>long\<close> (64 bits), which the assignment to \<open>uint32_t\<close> truncates.
\<close>

type_synonym u8 = "8 word"
type_synonym u32 = "32 word"
type_synonym u64 = "64 word"

definition lut_entries :: nat where
  "lut_entries = 32"

definition scaled_in_of :: "u64 \<Rightarrow> u32" where
  "scaled_in_of lrintf_result = ucast lrintf_result"

definition lut_ix :: "u32 \<Rightarrow> u8" where
  "lut_ix scaled_in = ucast (drop_bit 27 scaled_in)"

datatype mem_error = LutOutOfBounds | BufferOutOfBounds

text \<open>
  The arithmetic on \<open>complexf\<close> is a parameter of the model: \<open>lrintf_mag x s\<close> is the
  \<open>long\<close> that \<^verbatim>\<open>lrintf(std::abs(x) * s)\<close> yields and \<open>cmul\<close> is the complex product.
  Reads and writes outside a buffer or outside the table are results of their own.
\<close>

function apply_lut ::
  "('c \<Rightarrow> 'f \<Rightarrow> u64) \<Rightarrow> ('c \<Rightarrow> 'c \<Rightarrow> 'c) \<Rightarrow> 'c list \<Rightarrow> 'f \<Rightarrow> 'c list \<Rightarrow> nat \<Rightarrow> nat \<Rightarrow> 'c list
     \<Rightarrow> mem_error + 'c list" where
  "apply_lut lrintf_mag cmul lut scalefactor inp i stop out =
     (if i < stop then
        (if length inp \<le> i \<or> length out \<le> i then Inl BufferOutOfBounds
         else
           let scaled_in = scaled_in_of (lrintf_mag (inp ! i) scalefactor);
               ix = unat (lut_ix scaled_in)
           in if length lut \<le> ix then Inl LutOutOfBounds
              else apply_lut lrintf_mag cmul lut scalefactor inp (Suc i) stop
                     (out[i := cmul (inp ! i) (lut ! ix)]))
      else Inr out)"
  by pat_completeness auto
termination
  by (relation "measure (\<lambda>(lrintf_mag, cmul, lut, scalefactor, inp, i, stop, out). stop - i)") auto

declare apply_lut.simps [simp del]


section \<open>Transmitter (OutputUHD): data model\<close>

text \<open>
  \<open>frame_timestamp\<close> and \<open>UHDWorkerFrameData\<close>, with the fields the transmitter reads.
  \<open>fct\<close> is an \<open>int32_t\<close>; the value \<open>-1\<close> is the word \<open>- 1\<close>. Buffers are byte vectors
  (\<^verbatim>\<open>std::vector<uint8_t>\<close>); one \<open>complexf\<close> sample takes \<open>sizeof_complexf\<close> bytes.
\<close>

record frame_timestamp =
  fct :: u32
  timestamp_sec :: u32
  timestamp_pps :: u32
  timestamp_valid :: bool
  timestamp_refresh :: bool

record UHDWorkerFrameData =
  buf :: "u8 list"
  ts :: frame_timestamp

definition sizeof_complexf :: nat where
  "sizeof_complexf = 8"

definition FRAMES_MAX_SIZE :: nat where
  "FRAMES_MAX_SIZE = 8"

text \<open>
  \<open>uhd::time_spec_t\<close> holds full seconds and a fraction of a second as a \<open>double\<close>. The model
  keeps the two integers the transmitter builds it from: \<open>TimeSpec s p\<close> stands for
  \<^verbatim>\<open>uhd::time_spec_t(s, p / 16384000.0)\<close>.
\<close>

datatype time_spec_t = TimeSpec u32 u32

record tx_metadata_t =
  has_time_spec :: bool
  time_spec :: time_spec_t
  start_of_burst :: bool
  end_of_burst :: bool

datatype refclk_lock_loss_behaviour_t = CRASH | IGNORE

text \<open>
  \<open>OutputUHDConfig\<close>. \<open>staticDelayUs\<close> is a C \<open>int\<close> and is kept as an integer; where the
  source narrows or reinterprets it, the model writes the conversion out.
\<close>

record OutputUHDConfig =
  sampleRate :: u32
  enableSync :: bool
  muteNoTimestamps :: bool
  dabMode :: nat
  maxGPSHoldoverTime :: u32
  refclk_src :: string
  refclk_lock_loss_behaviour :: refclk_lock_loss_behaviour_t
  muting :: bool
  staticDelayUs :: int
  dpdFeedbackServerPort :: "16 word"

text \<open>
  What the device and the operating system were asked to do, in order: one entry for each
  call of \<^verbatim>\<open>myTxStream->send\<close> (first sample, number of samples, the bytes of those samples
  as far as the buffer holds them, metadata) and of \<^verbatim>\<open>usleep\<close> (microseconds).
\<close>

record send_call =
  first_samp :: nat
  nsamps :: nat
  samples :: "u8 list"
  md_tx :: tx_metadata_t

datatype action = Send send_call | Usleep nat

datatype exn =
    Runtime_error string
  | Logic_error string
  | ParameterError string
  | Ios_failure
  | Undefined_behaviour string

subsection \<open>Feedback burst request (OutputUHDFeedback)\<close>

datatype BurstRequestState = BurstNone | SaveTransmitFrame | SaveReceiveFrame | Acquired

record OutputUHDFeedback =
  m_running :: bool
  m_port :: "16 word"
  m_sampleRate :: u32
  burst_state :: BurstRequestState
  burst_num_samples :: nat
  burst_tx_samples :: "u8 list"
  burst_tx_second :: u32
  burst_tx_pps :: u32
  burst_rx_second :: u32
  burst_rx_pps :: u32

subsection \<open>The transmitter object\<close>

record OutputUHD =
  myConf :: OutputUHDConfig
  myTFDurationMs :: int
  myDelayBuf :: "u8 list"
  running :: bool
  first_run :: bool
  gps_fix_verified :: bool
  num_checks_without_gps_fix :: u32
  lastLen :: nat
  sourceContainsTimestamp :: bool
  frames :: "UHDWorkerFrameData list"
  md :: tx_metadata_t
  last_tx_second :: u32
  last_tx_pps :: u32
  last_tx_time_initialised :: bool
  suppress_refclk_loss_check :: bool
  num_underflows :: u64
  num_late_packets :: u64
  num_frames_modulated :: u64
  num_underflows_previous :: u64
  num_late_packets_previous :: u64
  uhdFeedback :: OutputUHDFeedback
  actions :: "action list"

section \<open>Transmitter: timestamp progression (handle_frame)\<close>

text \<open>
  The expected timestamp of a frame, from the previous frame's timestamp:
  \<^verbatim>\<open>increment = (uint64_t)sizeIn * 16384000ul / (uint64_t)myConf.sampleRate\<close>, then
  \<^verbatim>\<open>expected_sec = last_tx_second + increment / 16384000ul\<close>,
  \<^verbatim>\<open>expected_pps = last_tx_pps + increment % 16384000ul\<close> (both narrowed to 32 bits) and the
  loop \<^verbatim>\<open>while (expected_pps >= 16384000) { expected_sec++; expected_pps -= 16384000; }\<close>.
  The division traps for a sample rate of zero.
\<close>

definition increment_of :: "u64 \<Rightarrow> u32 \<Rightarrow> u64" where
  "increment_of sizeIn rate = (sizeIn * 16384000) div ucast rate"

function carry_pps :: "u32 \<Rightarrow> u32 \<Rightarrow> u32 \<times> u32" where
  "carry_pps expected_sec expected_pps =
     (if 16384000 \<le> expected_pps
      then carry_pps (expected_sec + 1) (expected_pps - 16384000)
      else (expected_sec, expected_pps))"
  by pat_completeness auto
termination
proof (relation "measure (\<lambda>(s, p). unat p)")
  show "wf (measure (\<lambda>(s, p). unat p))" by simp
next
  fix expected_sec expected_pps :: u32
  assume ge: "16384000 \<le> expected_pps"
  then have "unat (expected_pps - 16384000) = unat expected_pps - 16384000"
    by (simp add: unat_sub)
  moreover have "16384000 \<le> unat expected_pps"
    using ge by (simp add: word_le_nat_alt)
  ultimately show "((expected_sec + 1, expected_pps - 16384000), expected_sec, expected_pps)
      \<in> measure (\<lambda>(s, p). unat p)"
    by simp
qed

declare carry_pps.simps [simp del]

definition expected_timestamp :: "u32 \<Rightarrow> u32 \<Rightarrow> u64 \<Rightarrow> u32 \<Rightarrow> (u32 \<times> u32) option" where
  "expected_timestamp last_sec last_pps sizeIn rate =
     (if rate = 0 then None
      else
        let increment = increment_of sizeIn rate;
            expected_sec = last_sec + ucast (increment div 16384000);
            expected_pps = last_pps + ucast (increment mod 16384000)
        in Some (carry_pps expected_sec expected_pps))"

section \<open>Transmitter: sending one frame (tx_frame)\<close>

text \<open>
  The driver is a parameter: \<open>max_num_samps\<close> is what \<^verbatim>\<open>get_max_num_samps()\<close> reports and
  \<open>send_result first n\<close> is the number of samples \<^verbatim>\<open>send\<close> accepts when asked to send \<open>n\<close>
  samples starting at sample \<open>first\<close>. \<open>ref_locked\<close> is the reading of the sensor of that name.
  The two comparisons of the burst time with the device time are made on \<open>double\<close>s; their
  outcomes are inputs: \<open>ts_in_past\<close> for
  \<^verbatim>\<open>md.time_spec.get_real_secs() + tx_timeout < usrp_time\<close> and \<open>ts_in_far_future\<close> for
  \<^verbatim>\<open>md.time_spec.get_real_secs() > usrp_time + TIMESTAMP_ABORT_FUTURE\<close>.
\<close>

datatype sensor_reading = Sensor_value bool | Lookup_error

record worker_env =
  ref_locked :: sensor_reading
  ts_in_past :: bool
  ts_in_far_future :: bool
  max_num_samps :: nat
  send_result :: "nat \<Rightarrow> nat \<Rightarrow> nat"

text \<open>
  The loop of \<open>tx_frame\<close>. \<open>md_tx\<close> is a fresh copy of \<open>md\<close> in every iteration; the
  assignment to \<^verbatim>\<open>md_tx.time_spec\<close> after \<^verbatim>\<open>send\<close> is made on that copy, which the next
  iteration replaces, so it has no counterpart here. \<open>running\<close> and \<open>muting\<close> are read as they
  were when the frame was taken.
\<close>

function tx_loop ::
  "worker_env \<Rightarrow> bool \<Rightarrow> bool \<Rightarrow> bool \<Rightarrow> tx_metadata_t \<Rightarrow> u8 list \<Rightarrow> nat \<Rightarrow> nat
     \<Rightarrow> send_call list" where
  "tx_loop env is_running is_muting eob_wanted md0 in_data sizeIn num_acc_samps =
     (if is_running \<and> \<not> is_muting \<and> num_acc_samps < sizeIn then
        let usrp_max_num_samps = max_num_samps env;
            samps_to_send = min (sizeIn - num_acc_samps) usrp_max_num_samps;
            md_tx0 = md0\<lparr>end_of_burst := (eob_wanted \<and> samps_to_send \<le> usrp_max_num_samps)\<rparr>;
            num_tx_samps = send_result env num_acc_samps samps_to_send;
            call = \<lparr>first_samp = num_acc_samps, nsamps = samps_to_send,
                    samples = take (samps_to_send * sizeof_complexf)
                                (drop (num_acc_samps * sizeof_complexf) in_data),
                    md_tx = md_tx0\<rparr>
        in if num_tx_samps = 0 then [call]
           else call # tx_loop env is_running is_muting eob_wanted md0 in_data sizeIn
                         (num_acc_samps + num_tx_samps)
      else [])"
  by pat_completeness auto
termination
  by (relation "measure (\<lambda>(env, r, m, e, md0, in_data, sizeIn, acc). sizeIn - acc)") auto

declare tx_loop.simps [simp del]

text \<open>The parameter \<open>ts_update\<close> of the source is \<open>ts_upd\<close> here.\<close>

definition tx_frame :: "worker_env \<Rightarrow> UHDWorkerFrameData \<Rightarrow> bool \<Rightarrow> OutputUHD \<Rightarrow> send_call list" where
  "tx_frame env frame ts_upd st =
     (let sizeIn = length (buf frame) div sizeof_complexf
      in tx_loop env (running st) (muting (myConf st))
           (sourceContainsTimestamp st \<and> (timestamp_refresh (ts frame) \<or> ts_upd))
           (md st) (buf frame) sizeIn 0)"

section \<open>Transmitter: handling one frame (handle_frame, workerthread)\<close>

definition refclk_loss_needs_check :: "OutputUHD \<Rightarrow> bool" where
  "refclk_loss_needs_check st =
     (if suppress_refclk_loss_check st then False
      else refclk_src (myConf st) \<noteq> ''internal'')"

text \<open>
  \<open>handle_frame\<close> returns normally (\<open>None\<close>) or throws. The calls of \<open>usleep\<close> and
  \<open>send\<close> it makes are appended to \<open>actions\<close>.
\<close>

definition handle_frame :: "worker_env \<Rightarrow> UHDWorkerFrameData \<Rightarrow> OutputUHD \<Rightarrow> exn option \<times> OutputUHD" where
  "handle_frame env frame st0 =
     (let refclk_lost_crash =
            (refclk_loss_needs_check st0 \<and> ref_locked env = Sensor_value False \<and>
             refclk_lock_loss_behaviour (myConf st0) = CRASH);
          st = (if refclk_loss_needs_check st0 \<and> ref_locked env = Lookup_error
                then st0\<lparr>suppress_refclk_loss_check := True\<rparr> else st0)
      in
      if refclk_lost_crash
      then (Some (Runtime_error ''OutputUHD: External reference clock lock lost.''), st)
      else if sourceContainsTimestamp st then
        (let tx_second = timestamp_sec (ts frame);
             tx_pps = timestamp_pps (ts frame)
         in
         if \<not> timestamp_valid (ts frame)
         then (None, st\<lparr>actions := actions st @ [Usleep 20000]\<rparr>)
         else if last_tx_time_initialised st \<and> sampleRate (myConf st) = 0
         then (Some (Undefined_behaviour ''division by zero''), st)
         else
           let sizeIn = of_nat (length (buf frame) div sizeof_complexf) :: u64;
               timestamp_discontinuity =
                 (last_tx_time_initialised st \<and>
                  expected_timestamp (last_tx_second st) (last_tx_pps st) sizeIn
                      (sampleRate (myConf st))
                    \<noteq> Some (tx_second, tx_pps));
               st1 = st\<lparr>last_tx_second := tx_second, last_tx_pps := tx_pps,
                        last_tx_time_initialised := True,
                        md := (md st)\<lparr>has_time_spec := True,
                                       time_spec := TimeSpec tx_second tx_pps\<rparr>\<rparr>
           in
           if ts_in_past env then (None, st1)
           else if ts_in_far_future env
           then (Some (Runtime_error ''Timestamp error. Aborted.''), st1)
           else (None, st1\<lparr>actions := actions st1 @
                             map Send (tx_frame env frame timestamp_discontinuity st1)\<rparr>))
      else if muting (myConf st) \<or> muteNoTimestamps (myConf st)
      then (None, st\<lparr>actions := actions st @ [Usleep 20000]\<rparr>)
      else (None, st\<lparr>actions := actions st @ map Send (tx_frame env frame False st)\<rparr>))"

text \<open>
  Modelled from the spec: \<open>ThreadsafeQueue::wait_and_pop\<close> (ThreadsafeQueue.h is not among the
  sources). It blocks the consumer until at least \<open>prebuffering\<close> items are present, then
  removes the oldest one. \<open>None\<close> stands for a consumer that is still waiting.
\<close>

definition wait_and_pop :: "'a list \<Rightarrow> nat \<Rightarrow> ('a \<times> 'a list) option" where
  "wait_and_pop q prebuffering =
     (if length q < prebuffering then None
      else case q of [] \<Rightarrow> None | x # xs \<Rightarrow> Some (x, xs))"

text \<open>
  Modelled from the spec: \<open>ThreadsafeQueue::push_wait_if_full\<close>. It blocks the producer while
  the queue holds \<open>max_size\<close> items, then appends. \<open>None\<close> stands for a producer that is
  still waiting.
\<close>

definition push_wait_if_full :: "'a list \<Rightarrow> 'a \<Rightarrow> nat \<Rightarrow> 'a list option" where
  "push_wait_if_full q x max_size =
     (if max_size \<le> length q then None else Some (q @ [x]))"

text \<open>
  One pass through the body of the loop of \<open>workerthread\<close>. The two locals that live across
  iterations are \<open>last_num_underflows\<close> and \<open>pop_prebuffering\<close>; before the first iteration
  they are \<open>0\<close> and \<open>FRAMES_MAX_SIZE\<close>.
\<close>

record worker_locals =
  last_num_underflows :: u64
  pop_prebuffering :: nat

definition worker_locals_init :: worker_locals where
  "worker_locals_init = \<lparr>last_num_underflows = 0, pop_prebuffering = FRAMES_MAX_SIZE\<rparr>"

datatype worker_result = Iterated | Waiting | Thrown exn

definition worker_iteration ::
  "worker_env \<Rightarrow> worker_locals \<Rightarrow> OutputUHD \<Rightarrow> worker_result \<times> worker_locals \<times> OutputUHD" where
  "worker_iteration env loc st0 =
     (let st = st0\<lparr>md := (md st0)\<lparr>has_time_spec := False, time_spec := TimeSpec 0 0\<rparr>\<rparr>
      in case wait_and_pop (frames st) (pop_prebuffering loc) of
           None \<Rightarrow> (Waiting, loc, st)
         | Some (frame, rest) \<Rightarrow>
             (case handle_frame env frame (st\<lparr>frames := rest\<rparr>) of
                (Some e, st1) \<Rightarrow> (Thrown e, loc, st1)
              | (None, st1) \<Rightarrow>
                  let st2 = st1\<lparr>num_frames_modulated := num_frames_modulated st1 + 1\<rparr>;
                      prebuffering = (if last_num_underflows loc < num_underflows st2
                                      then FRAMES_MAX_SIZE else 1)
                  in (Iterated,
                      \<lparr>last_num_underflows = num_underflows st2, pop_prebuffering = prebuffering\<rparr>,
                      st2)))"

section \<open>Transmitter: asynchronous events (print_async_thread)\<close>

datatype event_code =
    EVENT_CODE_BURST_ACK
  | EVENT_CODE_UNDERFLOW
  | EVENT_CODE_SEQ_ERROR
  | EVENT_CODE_TIME_ERROR
  | EVENT_CODE_UNDERFLOW_IN_PACKET
  | EVENT_CODE_SEQ_ERROR_IN_BURST
  | EVENT_CODE_UNKNOWN

text \<open>
  One pass through the body of the loop of \<open>print_async_thread\<close>. \<open>received\<close> is the event
  \<^verbatim>\<open>recv_async_msg\<close> delivered, if any; \<open>print_due\<close> says whether a second has passed since
  the last status line. The result holds the alert message logged when \<open>failure\<close> is set.
\<close>

definition async_event :: "event_code \<Rightarrow> OutputUHD \<Rightarrow> string option \<times> OutputUHD" where
  "async_event code st =
     (case code of
        EVENT_CODE_BURST_ACK \<Rightarrow> (None, st)
      | EVENT_CODE_UNDERFLOW \<Rightarrow> (None, st\<lparr>num_underflows := num_underflows st + 1\<rparr>)
      | EVENT_CODE_SEQ_ERROR \<Rightarrow> (Some ''Packet loss between host and device.'', st)
      | EVENT_CODE_TIME_ERROR \<Rightarrow> (None, st\<lparr>num_late_packets := num_late_packets st + 1\<rparr>)
      | EVENT_CODE_UNDERFLOW_IN_PACKET \<Rightarrow> (Some ''Underflow occurred inside a packet.'', st)
      | EVENT_CODE_SEQ_ERROR_IN_BURST \<Rightarrow> (Some ''Packet loss within a burst.'', st)
      | EVENT_CODE_UNKNOWN \<Rightarrow> (Some ''unknown event code'', st))"

definition print_async_iteration ::
  "event_code option \<Rightarrow> bool \<Rightarrow> OutputUHD \<Rightarrow> string option \<times> OutputUHD" where
  "print_async_iteration received print_due st0 =
     (let (alert, st) = (case received of None \<Rightarrow> (None, st0) | Some code \<Rightarrow> async_event code st0)
      in if print_due
         then (alert, st\<lparr>num_underflows_previous := num_underflows st,
                         num_late_packets_previous := num_late_packets st\<rparr>)
         else (alert, st))"

section \<open>Feedback: copying the transmit frame (OutputUHDFeedback::set_tx_frame)\<close>

text \<open>
  Modelled from the spec: \<open>frame_timestamp::operator+=\<close> (TimestampDecoder.h is not among
  the sources). The source passes the offset in seconds as a \<open>double\<close>; here it is the
  fraction \<open>num / den\<close>. Following the data model of the specification, the stamp advances
  by \<open>num \<cdot> 16384000 / den\<close> ticks, carrying into seconds. A zero denominator has no
  result.
\<close>

definition frame_timestamp_add :: "frame_timestamp \<Rightarrow> nat \<Rightarrow> nat \<Rightarrow> frame_timestamp option" where
  "frame_timestamp_add t num den =
     (if den = 0 then None
      else
        let ticks = num * 16384000 div den;
            total = unat (timestamp_pps t) + ticks
        in Some (t\<lparr>timestamp_sec := timestamp_sec t + of_nat (total div 16384000),
                   timestamp_pps := of_nat (total mod 16384000)\<rparr>))"

text \<open>
  \<open>burst_num_samples\<close> is a \<open>size_t\<close>; the product with \<open>sizeof(complexf)\<close> wraps at
  \<open>2 ^ 64\<close>. For a sample rate of zero the offset is not a finite number and the source does
  not determine the capture timestamp; the model stops there with a result of its own.
\<close>

definition set_tx_frame ::
  "u8 list \<Rightarrow> frame_timestamp \<Rightarrow> OutputUHDFeedback \<Rightarrow> exn option \<times> OutputUHDFeedback" where
  "set_tx_frame b buf_ts fb =
     (if \<not> m_running fb then (Some (Runtime_error ''OutputUHDFeedback not running''), fb)
      else if length b mod sizeof_complexf \<noteq> 0
      then (Some (Logic_error ''Buffer for tx frame has incorrect size''), fb)
      else if burst_state fb = SaveTransmitFrame then
        let n = min ((burst_num_samples fb * sizeof_complexf) mod 2 ^ 64) (length b);
            start_ix = length b - n
        in case frame_timestamp_add buf_ts start_ix (sizeof_complexf * unat (m_sampleRate fb)) of
             None \<Rightarrow> (Some (Undefined_behaviour ''timestamp offset is not finite''), fb)
           | Some t \<Rightarrow>
               (None, fb\<lparr>burst_num_samples := n div sizeof_complexf,
                          burst_tx_samples := drop start_ix b,
                          burst_tx_second := timestamp_sec t,
                          burst_tx_pps := timestamp_pps t,
                          burst_rx_second := timestamp_sec t,
                          burst_rx_pps := timestamp_pps t,
                          burst_state := SaveReceiveFrame\<rparr>)
      else (None, fb))"

text \<open>The constructor of \<open>OutputUHDFeedback\<close>: the server runs only for a non-zero port.\<close>

definition OutputUHDFeedback_new :: "16 word \<Rightarrow> u32 \<Rightarrow> OutputUHDFeedback" where
  "OutputUHDFeedback_new port rate =
     \<lparr>m_running = (port \<noteq> 0), m_port = port, m_sampleRate = rate,
      burst_state = BurstNone, burst_num_samples = 0, burst_tx_samples = [],
      burst_tx_second = 0, burst_tx_pps = 0, burst_rx_second = 0, burst_rx_pps = 0\<rparr>"

section \<open>Transmitter: accepting a frame from the modulator (process)\<close>

definition transmission_frame_duration_ms :: "nat \<Rightarrow> exn + int" where
  "transmission_frame_duration_ms mode =
     (if mode = 0 then Inr 0
      else if mode = 1 then Inr 96
      else if mode = 2 then Inr 24
      else if mode = 3 then Inr 24
      else if mode = 4 then Inr 48
      else Inl (Runtime_error ''OutputUHD: invalid DAB mode''))"




datatype process_result = Returned nat | Threw exn | Push_waiting


text \<open>
  The static-delay ring: \<open>noSampleDelay\<close> and \<open>noByteDelay\<close> are \<open>uint32_t\<close>. The three
  \<open>memcpy\<close> calls read and write \<open>noByteDelay\<close> bytes; beyond the ends of the buffers that is
  undefined. The result is the frame buffer and the new delay buffer.
\<close>

definition delayed_frame_buf :: "OutputUHDConfig \<Rightarrow> u8 list \<Rightarrow> u8 list \<Rightarrow> exn + (u8 list \<times> u8 list)" where
  "delayed_frame_buf conf delaybuf dataIn =
     (let noSampleDelay = (word_of_int (staticDelayUs conf) * (sampleRate conf div 1000)) div 1000 :: u32;
          noByteDelay = unat (noSampleDelay * 8);
          len = length dataIn
      in if noByteDelay = 0 then Inr (dataIn, delaybuf)
         else if len < noByteDelay \<or> length delaybuf < noByteDelay
         then Inl (Undefined_behaviour ''memcpy outside the buffer'')
         else Inr (take noByteDelay delaybuf @ take (len - noByteDelay) dataIn,
                   drop (len - noByteDelay) dataIn @ drop noByteDelay delaybuf))"


definition push_frame :: "nat \<Rightarrow> UHDWorkerFrameData \<Rightarrow> OutputUHD \<Rightarrow> process_result \<times> OutputUHD" where
  "push_frame len frame st =
     (case push_wait_if_full (frames st) frame FRAMES_MAX_SIZE of
        None \<Rightarrow> (Push_waiting, st)
      | Some q \<Rightarrow> (Returned len, st\<lparr>frames := q\<rparr>))"

text \<open>
  The end of \<open>process\<close>: the frame is dropped when the worker has stopped (an exception) or
  when its FCT is \<open>-1\<close>; otherwise it is shown to the feedback server and pushed to the queue.
  A \<open>runtime_error\<close> from the feedback server is caught and the server replaced; any other
  exception leaves \<open>process\<close>.
\<close>

definition process_deliver :: "nat \<Rightarrow> UHDWorkerFrameData \<Rightarrow> OutputUHD \<Rightarrow> process_result \<times> OutputUHD" where
  "process_deliver len frame st =
     (if \<not> running st
      then (Threw (Runtime_error ''UHD worker failed''), st\<lparr>first_run := True\<rparr>)
      else if fct (ts frame) = - 1
      then (Returned len, st)
      else
        (case set_tx_frame (buf frame) (ts frame) (uhdFeedback st) of
           (None, fb) \<Rightarrow> push_frame len frame (st\<lparr>uhdFeedback := fb\<rparr>)
         | (Some (Runtime_error m), fb) \<Rightarrow>
             push_frame len frame
               (st\<lparr>uhdFeedback :=
                     OutputUHDFeedback_new (dpdFeedbackServerPort (myConf st))
                       (sampleRate (myConf st))\<rparr>)
         | (Some e, fb) \<Rightarrow> (Threw e, st\<lparr>uhdFeedback := fb\<rparr>)))"



section \<open>Transmitter: remote control (OutputUHD::set_parameter)\<close>

text \<open>
  The value string as the extraction operators read it: whether it parses as a \<open>double\<close>,
  what the extraction into a \<open>bool\<close> does, and the \<open>int64_t\<close> it parses as, if it does. A
  failed extraction throws, since the stream has \<open>failbit\<close> among its exceptions. The gains and
  the frequency are settings of the device, which has no state here.

  The extraction into \<open>myConf.muting\<close> writes to the member itself: \<open>0\<close> and \<open>1\<close> are read; any
  other number stores \<open>true\<close> and fails, a string that is no number stores \<open>false\<close> and fails,
  and an empty string fails and leaves the member as it was. The extraction into the local
  \<open>adjust\<close> has no effect when it fails.
\<close>

datatype bool_extraction = Bool_read bool | Bool_failed_storing bool | Bool_failed_untouched

record rc_value =
  reads_as_double :: bool
  reads_as_bool :: bool_extraction
  reads_as_int64 :: "int option"

text \<open>
  The branch for \<open>staticdelay\<close>: \<open>adjust\<close> is an \<open>int64_t\<close>, \<open>newStaticDelayUs\<close> an \<open>int\<close>,
  so the sum is narrowed to 32 bits. \<open>myTFDurationMs\<close> is taken to be an \<open>int\<close>, as the
  result of \<open>transmission_frame_duration_ms\<close> is (its declaration is in OutputUHD.h, which is
  not among the sources). The quotation marks in the error messages are left out.
\<close>

definition new_staticDelayUs :: "int \<Rightarrow> int \<Rightarrow> int \<Rightarrow> int" where
  "new_staticDelayUs tf_ms current adjust =
     (if adjust > tf_ms * 1000 then 0
      else
        let newStaticDelayUs = signed_take_bit 31 (current + adjust)
        in if newStaticDelayUs > tf_ms * 1000 then newStaticDelayUs - tf_ms * 1000
           else if newStaticDelayUs < 0 then newStaticDelayUs + tf_ms * 1000
           else newStaticDelayUs)"

definition OutputUHD_set_parameter :: "string \<Rightarrow> rc_value \<Rightarrow> OutputUHD \<Rightarrow> exn option \<times> OutputUHD" where
  "OutputUHD_set_parameter parameter v st =
     (if parameter = ''txgain'' \<or> parameter = ''rxgain'' \<or> parameter = ''freq''
      then (if reads_as_double v then (None, st) else (Some Ios_failure, st))
      else if parameter = ''muting'' then
        (case reads_as_bool v of
           Bool_read b \<Rightarrow> (None, st\<lparr>myConf := (myConf st)\<lparr>muting := b\<rparr>\<rparr>)
         | Bool_failed_storing b \<Rightarrow> (Some Ios_failure, st\<lparr>myConf := (myConf st)\<lparr>muting := b\<rparr>\<rparr>)
         | Bool_failed_untouched \<Rightarrow> (Some Ios_failure, st))
      else if parameter = ''staticdelay'' then
        (case reads_as_int64 v of
           None \<Rightarrow> (Some Ios_failure, st)
         | Some adjust \<Rightarrow>
             (None, st\<lparr>myConf := (myConf st)\<lparr>staticDelayUs :=
                         new_staticDelayUs (myTFDurationMs st) (staticDelayUs (myConf st)) adjust\<rparr>\<rparr>))
      else if parameter = ''underruns'' \<or> parameter = ''latepackets'' \<or> parameter = ''frames''
      then (Some (ParameterError (''Parameter '' @ parameter @ '' is read-only.'')), st)
      else (Some (ParameterError (''Parameter '' @ parameter @
                                  '' is not exported by controllable uhd'')), st))"

section \<open>Predistorter (MemlessPoly): coefficients and processing\<close>

datatype dpd_type_t = odd_only_poly | lookup_table

record 'f MemlessPoly =
  m_dpd_type :: dpd_type_t
  m_coefs_am :: "'f list"
  m_coefs_pm :: "'f list"
  m_lut :: "'f list"
  m_lut_scalefactor :: 'f
  m_dpd_settings_valid :: bool
  m_coefs_file :: string

definition NUM_COEFS :: int where
  "NUM_COEFS = 5"

text \<open>
  A coefficient file as \<^verbatim>\<open>std::ifstream\<close> presents it: the whitespace-separated fields that
  are left, whether whitespace follows the last field, and the two state bits the source
  depends on. A field is either a number, which carries the value that \<^verbatim>\<open>operator>>\<close> stores
  for it in a \<open>uint32_t\<close>, in an \<open>int\<close> and in a \<open>float\<close>, or a token that does not start a
  number (\<open>Garbage\<close>). Floats are values of a type \<open>'f\<close> that only has a zero.
\<close>

datatype 'f field = Field (as_uint32: u32) (as_int: int) (as_float: 'f) | Garbage

record 'f ifstream =
  remaining :: "'f field list"
  ends_with_ws :: bool
  eofbit :: bool
  failbit :: bool

text \<open>
  One formatted extraction (\<^verbatim>\<open>coef_fstream >> x\<close>). A stream that is not good fails at once
  and leaves its target as it was. Otherwise whitespace is skipped; at the end of the file
  that sets \<open>eofbit\<close> and \<open>failbit\<close> and leaves the target as it was. Otherwise the next field
  is looked at. A number is read, and reading it runs into the end of the file (\<open>eofbit\<close>)
  when it is the last field and nothing follows it. A token that is no number stays in the
  stream, zero is stored in the target and \<open>failbit\<close> alone is set.
\<close>

datatype 'f extraction = Read u32 int 'f | Zeroed | Untouched

definition extract_field :: "'f ifstream \<Rightarrow> 'f extraction \<times> 'f ifstream" where
  "extract_field s =
     (if eofbit s \<or> failbit s then (Untouched, s\<lparr>failbit := True\<rparr>)
      else case remaining s of
             [] \<Rightarrow> (Untouched, s\<lparr>eofbit := True, failbit := True\<rparr>)
           | x # xs \<Rightarrow>
               (case x of
                  Garbage \<Rightarrow> (Zeroed, s\<lparr>failbit := True\<rparr>)
                | Field u i f \<Rightarrow>
                    (Read u i f, s\<lparr>remaining := xs, eofbit := (xs = [] \<and> \<not> ends_with_ws s)\<rparr>)))"

text \<open>
  The targets of the extractions are locals without initialiser; what they hold before the
  extraction is not determined by the program and is an input of the model, one value for
  each type of target. After the extraction a target holds the value read, zero, or what it
  held before.
\<close>

record 'f uninitialised =
  junk_uint32 :: u32
  junk_int :: int
  junk_float :: 'f

definition stored_uint32 :: "u32 \<Rightarrow> 'f extraction \<Rightarrow> u32" where
  "stored_uint32 before r = (case r of Read u i f \<Rightarrow> u | Zeroed \<Rightarrow> 0 | Untouched \<Rightarrow> before)"

definition stored_int :: "int \<Rightarrow> 'f extraction \<Rightarrow> int" where
  "stored_int before r = (case r of Read u i f \<Rightarrow> i | Zeroed \<Rightarrow> 0 | Untouched \<Rightarrow> before)"

definition stored_float :: "'f \<Rightarrow> ('f::zero) extraction \<Rightarrow> 'f" where
  "stored_float before r = (case r of Read u i f \<Rightarrow> f | Zeroed \<Rightarrow> 0 | Untouched \<Rightarrow> before)"

function read_poly_coefs ::
  "'f \<Rightarrow> nat \<Rightarrow> nat \<Rightarrow> nat \<Rightarrow> 'f ifstream \<Rightarrow> 'f list \<Rightarrow> 'f list \<Rightarrow> exn + (('f::zero) list \<times> 'f list)" where
  "read_poly_coefs junk n_coefs n_entries n s coefs_am coefs_pm =
     (if n < n_entries then
        (case extract_field s of
           (v, s') \<Rightarrow>
             let a = stored_float junk v;
                 am = (if n < n_coefs then coefs_am[n := a] else coefs_am);
                 pm = (if n < n_coefs then coefs_pm else coefs_pm[n - n_coefs := a])
             in if eofbit s' then Inl (Runtime_error ''MemlessPoly: coefs file invalid !'')
                else read_poly_coefs junk n_coefs n_entries (Suc n) s' am pm)
      else Inr (coefs_am, coefs_pm))"
  by pat_completeness auto
termination
  by (relation "measure (\<lambda>(junk, n_coefs, n_entries, n, s, am, pm). n_entries - n)") auto

declare read_poly_coefs.simps [simp del]

function read_lut :: "'f \<Rightarrow> nat \<Rightarrow> 'f ifstream \<Rightarrow> 'f list \<Rightarrow> ('f::zero) list" where
  "read_lut junk n s lut =
     (if n < lut_entries then
        (case extract_field s of
           (v, s') \<Rightarrow>
             let a = stored_float junk v
             in read_lut junk (Suc n) s' (lut[n := a]))
      else lut)"
  by pat_completeness auto
termination
  by (relation "measure (\<lambda>(junk, n, s, lut). lut_entries - n)") auto

declare read_lut.simps [simp del]

text \<open>
  \<open>load_coefficients\<close>. \<open>fs\<close> is the file system: the stream a file name opens, if it can
  be opened. The result is the exception thrown, if any, and the object afterwards.
\<close>

definition load_coefficients ::
  "(string \<Rightarrow> 'f ifstream option) \<Rightarrow> 'f uninitialised \<Rightarrow> string \<Rightarrow> ('f::zero) MemlessPoly
     \<Rightarrow> exn option \<times> 'f MemlessPoly" where
  "load_coefficients fs junk coefFile st =
     (case fs coefFile of
        None \<Rightarrow> (Some (Runtime_error ''MemlessPoly: Could not open file with coefs!''), st)
      | Some s0 \<Rightarrow>
          (case extract_field s0 of
             (v1, s1) \<Rightarrow>
               let file_format_indicator = stored_uint32 (junk_uint32 junk) v1
               in if file_format_indicator = 1 then
                    (case extract_field s1 of
                       (v2, s2) \<Rightarrow>
                         let n_coefs = stored_int (junk_int junk) v2
                         in if n_coefs \<le> 0
                            then (Some (Runtime_error ''MemlessPoly: coefs file has invalid format.''), st)
                            else if n_coefs \<noteq> NUM_COEFS
                            then (Some (Runtime_error ''MemlessPoly: invalid number of coefs''), st)
                            else
                              (case read_poly_coefs (junk_float junk) (nat n_coefs) (2 * nat n_coefs) 0 s2
                                      (replicate (nat n_coefs) 0) (replicate (nat n_coefs) 0) of
                                 Inl e \<Rightarrow> (Some e, st)
                               | Inr (coefs_am, coefs_pm) \<Rightarrow>
                                   (None, st\<lparr>m_dpd_type := odd_only_poly,
                                              m_coefs_am := coefs_am,
                                              m_coefs_pm := coefs_pm,
                                              m_dpd_settings_valid := True\<rparr>)))
                  else if file_format_indicator = 2 then
                    (case extract_field s1 of
                       (v2, s2) \<Rightarrow>
                         let scalefactor = stored_float (junk_float junk) v2;
                             lut = read_lut (junk_float junk) 0 s2 (replicate lut_entries 0)
                         in (None, st\<lparr>m_dpd_type := lookup_table,
                                       m_lut_scalefactor := scalefactor,
                                       m_lut := lut,
                                       m_dpd_settings_valid := True\<rparr>))
                  else (None, st\<lparr>m_dpd_settings_valid := False\<rparr>)))"


text \<open>
  Modelled from the spec: \<open>Buffer::setLength\<close> (Buffer.cpp is not among the sources). The
  buffer takes the given length; the bytes it held stay, the bytes it gains hold a value the
  program does not determine (\<open>fresh\<close>).
\<close>

definition Buffer_setLength :: "nat \<Rightarrow> u8 \<Rightarrow> u8 list \<Rightarrow> u8 list" where
  "Buffer_setLength len fresh b = take len b @ replicate (len - length b) fresh"

text \<open>
  \<open>internal_process\<close>. With valid settings the frame goes through \<open>apply_coeff\<close> or
  \<open>apply_lut\<close> on the worker threads; that floating-point path is the parameter
  \<open>predistort\<close>. Without, the source calls \<^verbatim>\<open>memcpy(dataOut->getData(), dataIn->getData(), sizeOut)\<close>
  where \<^verbatim>\<open>sizeOut = dataOut->getLength() / sizeof(complexf)\<close>. The result is the return value
  and the output buffer.
\<close>

definition internal_process ::
  "('f MemlessPoly \<Rightarrow> u8 list \<Rightarrow> u8 list \<Rightarrow> u8 list) \<Rightarrow> u8 \<Rightarrow> 'f MemlessPoly \<Rightarrow> u8 list \<Rightarrow> u8 list
     \<Rightarrow> nat \<times> u8 list" where
  "internal_process predistort fresh st dataIn dataOut0 =
     (let dataOut = Buffer_setLength (length dataIn) fresh dataOut0;
          sizeOut = length dataOut div sizeof_complexf;
          dataOut1 = (if m_dpd_settings_valid st then predistort st dataIn dataOut
                      else take sizeOut dataIn @ drop sizeOut dataOut)
      in (length dataOut, dataOut1))"

section \<open>Sample objects\<close>

text \<open>
  A transmitter in DAB mode 1 at 2 048 000 samples per second with synchronous transmission
  and muting on missing timestamps, an idle feedback server, and a predistorter without valid
  settings. The theorems below are instantiated at these objects and at variations of them.
\<close>

definition conf0 :: OutputUHDConfig where
  "conf0 =
     \<lparr>sampleRate = 2048000, enableSync = True, muteNoTimestamps = True, dabMode = 1,
      maxGPSHoldoverTime = 0, refclk_src = ''internal'', refclk_lock_loss_behaviour = IGNORE,
      muting = False, staticDelayUs = 0, dpdFeedbackServerPort = 0\<rparr>"

definition md_init :: tx_metadata_t where
  "md_init =
     \<lparr>has_time_spec = False, time_spec = TimeSpec 0 0, start_of_burst = False,
      end_of_burst = False\<rparr>"

definition uhd0 :: OutputUHD where
  "uhd0 =
     \<lparr>myConf = conf0, myTFDurationMs = 96, myDelayBuf = [], running = True, first_run = False,
      gps_fix_verified = True, num_checks_without_gps_fix = 0, lastLen = 16,
      sourceContainsTimestamp = True, frames = [], md = md_init,
      last_tx_second = 0, last_tx_pps = 0, last_tx_time_initialised = False,
      suppress_refclk_loss_check = False, num_underflows = 0, num_late_packets = 0,
      num_frames_modulated = 0, num_underflows_previous = 0, num_late_packets_previous = 0,
      uhdFeedback = OutputUHDFeedback_new 0 2048000, actions = []\<rparr>"

definition ts0 :: frame_timestamp where
  "ts0 =
     \<lparr>fct = 0, timestamp_sec = 0, timestamp_pps = 0, timestamp_valid = True,
      timestamp_refresh = False\<rparr>"

definition bytes16 :: "u8 list" where
  "bytes16 = [1, 2, 3, 4, 5, 6, 7, 8, 9, 10, 11, 12, 13, 14, 15, 16]"

definition frame0 :: UHDWorkerFrameData where
  "frame0 = \<lparr>buf = bytes16 @ bytes16, ts = ts0\<rparr>"

definition wenv0 :: worker_env where
  "wenv0 =
     \<lparr>ref_locked = Sensor_value True, ts_in_past = False, ts_in_far_future = False,
      max_num_samps = 2, send_result = (\<lambda>first n. n)\<rparr>"


definition poly0 :: "int MemlessPoly" where
  "poly0 =
     \<lparr>m_dpd_type = odd_only_poly, m_coefs_am = [], m_coefs_pm = [], m_lut = [],
      m_lut_scalefactor = 0, m_dpd_settings_valid = False, m_coefs_file = []\<rparr>"


text \<open>
  Coefficient files: one with the unknown format indicator 3, a polynomial file that
  announces five coefficients and ends after two values, and a polynomial file that
  announces five coefficients and holds \<open>1 2 x 4 5\<close>. A predistorter with valid settings.
\<close>

definition junk0 :: "int uninitialised" where
  "junk0 = \<lparr>junk_uint32 = 0, junk_int = 0, junk_float = 99\<rparr>"

definition unknown_format_file :: "int ifstream" where
  "unknown_format_file =
     \<lparr>remaining = [Field 3 3 3], ends_with_ws = True, eofbit = False, failbit = False\<rparr>"

definition short_poly_file :: "int ifstream" where
  "short_poly_file =
     \<lparr>remaining = [Field 1 1 1, Field 5 5 5, Field 7 7 7, Field 8 8 8], ends_with_ws = True,
      eofbit = False, failbit = False\<rparr>"

definition garbage_poly_file :: "int ifstream" where
  "garbage_poly_file =
     \<lparr>remaining = [Field 1 1 1, Field 5 5 5, Field 1 1 1, Field 2 2 2, Garbage, Field 4 4 4,
                   Field 5 5 5],
      ends_with_ws = True, eofbit = False, failbit = False\<rparr>"

definition fs0 :: "string \<Rightarrow> int ifstream option" where
  "fs0 name =
     (if name = ''unknown'' then Some unknown_format_file
      else if name = ''short'' then Some short_poly_file
      else if name = ''garbage'' then Some garbage_poly_file
      else None)"

definition poly_valid :: "int MemlessPoly" where
  "poly_valid =
     \<lparr>m_dpd_type = odd_only_poly, m_coefs_am = [1, 0, 0, 0, 0], m_coefs_pm = [0, 0, 0, 0, 0],
      m_lut = [], m_lut_scalefactor = 0, m_dpd_settings_valid = True,
      m_coefs_file = ''polyCoefs''\<rparr>"

definition predistort0 :: "int MemlessPoly \<Rightarrow> u8 list \<Rightarrow> u8 list \<Rightarrow> u8 list" where
  "predistort0 st dataIn dataOut = dataOut"



definition silence32 :: "u8 list" where
  "silence32 = replicate 32 0"


section \<open>Properties\<close>

subsection \<open>The index into the lookup table\<close>

lemma lut_ix_bound: "unat (lut_ix w) < 32"
proof -
  have "unat (drop_bit 27 w) = unat w div 2 ^ 27"
    by (simp add: drop_bit_eq_div unat_div)
  moreover have "unat w < 2 ^ 32"
    using unsigned_less [of w] by simp
  ultimately have "unat (drop_bit 27 w) < 32"
    by (simp add: less_mult_imp_div_less)
  then show ?thesis
    by (simp add: lut_ix_def unsigned_ucast_eq take_bit_eq_mod)
qed

lemma apply_lut_no_lut_fault:
  "lut_entries \<le> length lut \<Longrightarrow>
   apply_lut lrintf_mag cmul lut scalefactor inp i stop out \<noteq> Inl LutOutOfBounds"
proof (induction lrintf_mag cmul lut scalefactor inp i stop out rule: apply_lut.induct)
  case (1 lrintf_mag cmul lut scalefactor inp i stop out)
  have ix: "\<not> length lut \<le> unat (lut_ix (scaled_in_of (lrintf_mag (inp ! i) scalefactor)))"
    using lut_ix_bound [of "scaled_in_of (lrintf_mag (inp ! i) scalefactor)"] "1.prems"
    by (simp add: lut_entries_def)
  show ?case
  proof (cases "i < stop \<and> \<not> (length inp \<le> i \<or> length out \<le> i)")
    case True
    then show ?thesis
      using "1.IH" [OF _ _ refl refl] ix "1.prems"
      by (subst apply_lut.simps) (simp add: Let_def)
  next
    case False
    then show ?thesis
      by (subst apply_lut.simps) auto
  qed
qed

text \<open>
  C10: for every input sample and every scalefactor, whatever value \<open>lrintf\<close> returns, the
  bin index (the 32-bit scaled magnitude shifted right by 27 bits) is at most 31, and
  \<open>apply_lut\<close> on a table of 32 entries never reads outside the table.
\<close>

theorem C10_lut_index_in_table:
  "unat (lut_ix (scaled_in_of r)) \<le> 31 \<and>
   (length lut = lut_entries \<longrightarrow>
      apply_lut lrintf_mag cmul lut scalefactor inp start stop out \<noteq> Inl LutOutOfBounds)"
  using lut_ix_bound [of "scaled_in_of r"]
    apply_lut_no_lut_fault [of lut lrintf_mag cmul scalefactor inp start stop out]
  by auto

theorem C10_lut_index_in_table_witness:
  "length (replicate 32 (0::nat)) = lut_entries \<and>
   unat (lut_ix (scaled_in_of 0xFFFFFFFFFFFFFFFF)) \<le> 31 \<and>
   apply_lut (\<lambda>x s. 0xFFFFFFFFFFFFFFFF) (\<lambda>a b. a * b) (replicate 32 (0::nat)) (1::nat) [1, 2] 0 2 [0, 0]
     \<noteq> Inl LutOutOfBounds"
  using C10_lut_index_in_table [of "0xFFFFFFFFFFFFFFFF" "replicate 32 (0::nat)"
      "\<lambda>x s. 0xFFFFFFFFFFFFFFFF" "\<lambda>a b. a * b" "1::nat" "[1, 2]" 0 2 "[0, 0]"]
  by (simp add: lut_entries_def)


subsection \<open>Timestamp progression\<close>

lemma div_mod_carry: "(i::nat) div T + (p + i mod T) div T = (p + i) div T"
proof (cases "T = 0")
  case True then show ?thesis by simp
next
  case False
  have "p + i = i div T * T + (p + i mod T)"
    by simp
  then have "(p + i) div T = (i div T * T + (p + i mod T)) div T"
    by (rule arg_cong)
  also have "\<dots> = i div T + (p + i mod T) div T"
    using False by (rule div_mult_self3)
  finally show ?thesis by (rule sym)
qed

lemma floor_add:
  "(a::nat) mod R + b mod R < R \<Longrightarrow> (a + b) div R = a div R + b div R"
  using div_add1_eq [of a b R] by simp

lemma carry_pps_eq:
  "carry_pps s p = (s + of_nat (unat p div 16384000), of_nat (unat p mod 16384000))"
proof (induction s p rule: carry_pps.induct)
  case (1 s p)
  show ?case
  proof (cases "16384000 \<le> p")
    case True
    then have ge: "16384000 \<le> unat p"
      by (simp add: word_le_nat_alt)
    have sub: "unat (p - 16384000) = unat p - 16384000"
      using True by (simp add: unat_sub)
    have d: "unat p div 16384000 = Suc ((unat p - 16384000) div 16384000)"
      using ge by (simp add: le_div_geq)
    have m: "unat p mod 16384000 = (unat p - 16384000) mod 16384000"
      using ge by (simp add: le_mod_geq)
    show ?thesis
      using "1.IH" [OF True] True
      by (subst carry_pps.simps) (simp add: sub d m)
  next
    case False
    then have lt: "unat p < 16384000"
      by (simp add: word_le_nat_alt)
    show ?thesis
      using False lt by (subst carry_pps.simps) simp
  qed
qed

lemma expected_timestamp_ticks:
  assumes R: "rate \<noteq> 0" and p: "unat pps < 16384000"
  shows "expected_timestamp sec pps N rate =
    Some (sec + of_nat ((unat pps + unat (increment_of N rate)) div 16384000),
          of_nat ((unat pps + unat (increment_of N rate)) mod 16384000))"
proof -
  let ?i = "unat (increment_of N rate)"
  have um: "unat (increment_of N rate mod 16384000) = ?i mod 16384000"
    by (simp add: unat_mod)
  have ud: "unat (increment_of N rate div 16384000) = ?i div 16384000"
    by (simp add: unat_div)
  have cm: "unat (ucast (increment_of N rate mod 16384000) :: u32) = ?i mod 16384000"
  proof -
    have "?i mod 16384000 < 2 ^ 32"
      by (rule less_trans [of _ 16384000]) simp_all
    then show ?thesis
      by (simp add: unsigned_ucast_eq take_bit_eq_mod um)
  qed
  have cd: "(ucast (increment_of N rate div 16384000) :: u32) = of_nat (?i div 16384000)"
    by (simp add: ud [symmetric])
  have sum: "unat (pps + ucast (increment_of N rate mod 16384000)) = unat pps + ?i mod 16384000"
  proof -
    have "?i mod 16384000 < 16384000" by simp
    then have "unat pps + ?i mod 16384000 < 2 ^ 32"
      using p by simp
    then show ?thesis
      by (simp add: unat_plus_if' cm)
  qed
  have dv: "?i div 16384000 + (unat pps + ?i mod 16384000) div 16384000 = (unat pps + ?i) div 16384000"
    by (rule div_mod_carry)
  have md: "(unat pps + ?i mod 16384000) mod 16384000 = (unat pps + ?i) mod 16384000"
    by (simp add: mod_add_right_eq)
  have sc: "sec + of_nat (?i div 16384000) + of_nat ((unat pps + ?i mod 16384000) div 16384000)
      = sec + (of_nat ((unat pps + ?i) div 16384000) :: u32)"
    by (simp only: dv [symmetric] of_nat_add add.assoc)
  have "expected_timestamp sec pps N rate =
      Some (sec + of_nat (?i div 16384000) + of_nat ((unat pps + ?i mod 16384000) div 16384000),
            of_nat ((unat pps + ?i mod 16384000) mod 16384000))"
    using R by (simp only: expected_timestamp_def Let_def carry_pps_eq cd sum if_False)
  then show ?thesis
    by (simp only: sc md)
qed

lemma unat_ucast_rate: "unat (ucast (r :: u32) :: u64) = unat r"
proof -
  have "unat r < 2 ^ 64"
    using unsigned_less [of r, where ?'a = nat] by simp
  then show ?thesis
    by (simp add: unsigned_ucast_eq take_bit_nat_eq_self)
qed

lemma unat_increment_of:
  assumes "unat N * 16384000 < 2 ^ 64"
  shows "unat (increment_of N r) = unat N * 16384000 div unat r"
proof -
  have "unat N * unat (16384000 :: u64) < 2 ^ LENGTH(64)"
    using assms by simp
  then have "unat (N * 16384000) = unat N * unat (16384000 :: u64)"
    by (simp only: unat_mult_lem)
  then show ?thesis
    by (simp add: increment_of_def unat_div unat_ucast_rate)
qed

lemma unat_pps_of_nat: "unat (of_nat (x mod 16384000) :: u32) = x mod 16384000"
proof -
  have "x mod 16384000 < 2 ^ 32"
    by (rule less_trans [of _ 16384000]) simp_all
  then show ?thesis
    by (simp add: unat_of_nat)
qed

lemma handle_frame_timestamped:
  assumes src: "sourceContainsTimestamp st" and valid: "timestamp_valid (ts frame)"
    and init: "last_tx_time_initialised st" and rate: "sampleRate (myConf st) \<noteq> 0"
    and ok: "refclk_loss_needs_check st \<and> ref_locked env = Sensor_value False \<longrightarrow>
             refclk_lock_loss_behaviour (myConf st) = IGNORE"
    and past: "\<not> ts_in_past env" and future: "\<not> ts_in_far_future env"
  shows "fst (handle_frame env frame st) = None \<and>
         last_tx_second (snd (handle_frame env frame st)) = timestamp_sec (ts frame) \<and>
         last_tx_pps (snd (handle_frame env frame st)) = timestamp_pps (ts frame) \<and>
         actions (snd (handle_frame env frame st)) =
           actions st @ map Send (tx_frame env frame
             (expected_timestamp (last_tx_second st) (last_tx_pps st)
                (of_nat (length (buf frame) div sizeof_complexf)) (sampleRate (myConf st))
              \<noteq> Some (timestamp_sec (ts frame), timestamp_pps (ts frame)))
             (st\<lparr>md := (md st)\<lparr>has_time_spec := True,
                     time_spec := TimeSpec (timestamp_sec (ts frame)) (timestamp_pps (ts frame))\<rparr>\<rparr>))"
proof -
  have nocrash: "refclk_lock_loss_behaviour (myConf st) = CRASH \<Longrightarrow>
        \<not> (refclk_loss_needs_check st \<and> ref_locked env = Sensor_value False)"
    using ok by auto
  show ?thesis
    using src valid init rate past future nocrash
    by (auto simp add: handle_frame_def Let_def tx_frame_def)
qed

lemma expected_timestamp_pps_range:
  "expected_timestamp sec pps N rate = Some (s, p) \<Longrightarrow> unat p < 16384000"
proof -
  have "unat (of_nat (x mod 16384000) :: u32) < 16384000" for x
    by (simp add: unat_pps_of_nat)
  then show "expected_timestamp sec pps N rate = Some (s, p) \<Longrightarrow> unat p < 16384000"
    by (auto simp add: expected_timestamp_def Let_def carry_pps_eq split: if_splits)
qed

text \<open>
  C1, as stated, fails: the increment is an integer division, so at 2 000 000 samples per
  second two advances by 3 samples give 48 ticks and one advance by 6 samples gives 49.
\<close>

theorem C1_additivity_counterexample:
  "expected_timestamp 0 0 3 2000000 = Some (0, 24) \<and>
   expected_timestamp 0 24 3 2000000 = Some (0, 48) \<and>
   expected_timestamp 0 0 (3 + 3) 2000000 = Some (0, 49)"
  by (simp add: expected_timestamp_def increment_of_def carry_pps.simps)

text \<open>
  C1, amended: for a non-zero sample rate \<open>R\<close>, a timestamp with pps below 16 384 000 and
  sample counts \<open>N\<close>, \<open>M\<close> whose tick products fit 64 bits, advancing by \<open>N\<close> samples adds
  \<open>N \<cdot> 16384000 div R\<close> ticks (the quotient rounded down), carrying into seconds, which wrap at
  \<open>2 ^ 32\<close>; when the division remainders \<open>N \<cdot> 16384000 mod R\<close> and \<open>M \<cdot> 16384000 mod R\<close> add
  up to less than \<open>R\<close> (in particular when \<open>R\<close> divides both products), advancing by \<open>N\<close> and
  then by \<open>M\<close> samples equals advancing once by \<open>N + M\<close>; the pps of every advance, from any
  timestamp, is below 16 384 000. For every frame with a valid timestamp that it goes on to
  send, \<open>handle_frame\<close> compares the frame's timestamp with exactly this advance of the
  previous frame's timestamp by the frame's sample count, hands the outcome to \<open>tx_frame\<close> as
  \<open>ts_update\<close>, and keeps the frame's timestamp as the previous one for the next frame.
\<close>

theorem C1_timestamp_advance:
  assumes R: "rate \<noteq> 0" and p: "unat pps < 16384000"
    and ov: "(unat N + unat M) * 16384000 < 2 ^ 64"
    and ex: "unat N * 16384000 mod unat rate + unat M * 16384000 mod unat rate < unat rate"
  shows "expected_timestamp sec pps N rate =
           Some (sec + of_nat ((unat pps + unat N * 16384000 div unat rate) div 16384000),
                 of_nat ((unat pps + unat N * 16384000 div unat rate) mod 16384000)) \<and>
         (\<exists>s1 p1 s2 p2.
           expected_timestamp sec pps N rate = Some (s1, p1) \<and> unat p1 < 16384000 \<and>
           expected_timestamp s1 p1 M rate = Some (s2, p2) \<and> unat p2 < 16384000 \<and>
           expected_timestamp sec pps (N + M) rate = Some (s2, p2)) \<and>
         (expected_timestamp any_sec any_pps any_N any_rate = Some (s, p) \<longrightarrow> unat p < 16384000) \<and>
         (sourceContainsTimestamp st \<and> timestamp_valid (ts frame) \<and>
          last_tx_time_initialised st \<and> sampleRate (myConf st) \<noteq> 0 \<and>
          (refclk_loss_needs_check st \<and> ref_locked env = Sensor_value False \<longrightarrow>
             refclk_lock_loss_behaviour (myConf st) = IGNORE) \<and>
          \<not> ts_in_past env \<and> \<not> ts_in_far_future env \<longrightarrow>
          fst (handle_frame env frame st) = None \<and>
          last_tx_second (snd (handle_frame env frame st)) = timestamp_sec (ts frame) \<and>
          last_tx_pps (snd (handle_frame env frame st)) = timestamp_pps (ts frame) \<and>
          actions (snd (handle_frame env frame st)) =
            actions st @ map Send (tx_frame env frame
              (expected_timestamp (last_tx_second st) (last_tx_pps st)
                 (of_nat (length (buf frame) div sizeof_complexf)) (sampleRate (myConf st))
               \<noteq> Some (timestamp_sec (ts frame), timestamp_pps (ts frame)))
              (st\<lparr>md := (md st)\<lparr>has_time_spec := True,
                      time_spec := TimeSpec (timestamp_sec (ts frame)) (timestamp_pps (ts frame))\<rparr>\<rparr>)))"
proof (intro conjI)
  have "unat N * 16384000 < 2 ^ 64"
    using ov by simp
  then show "expected_timestamp sec pps N rate =
           Some (sec + of_nat ((unat pps + unat N * 16384000 div unat rate) div 16384000),
                 of_nat ((unat pps + unat N * 16384000 div unat rate) mod 16384000))"
    using expected_timestamp_ticks [OF R p, of sec N] by (simp only: unat_increment_of)
next
  show "expected_timestamp any_sec any_pps any_N any_rate = Some (s, p) \<longrightarrow> unat p < 16384000"
    using expected_timestamp_pps_range by blast
next
  show "sourceContainsTimestamp st \<and> timestamp_valid (ts frame) \<and>
          last_tx_time_initialised st \<and> sampleRate (myConf st) \<noteq> 0 \<and>
          (refclk_loss_needs_check st \<and> ref_locked env = Sensor_value False \<longrightarrow>
             refclk_lock_loss_behaviour (myConf st) = IGNORE) \<and>
          \<not> ts_in_past env \<and> \<not> ts_in_far_future env \<longrightarrow>
          fst (handle_frame env frame st) = None \<and>
          last_tx_second (snd (handle_frame env frame st)) = timestamp_sec (ts frame) \<and>
          last_tx_pps (snd (handle_frame env frame st)) = timestamp_pps (ts frame) \<and>
          actions (snd (handle_frame env frame st)) =
            actions st @ map Send (tx_frame env frame
              (expected_timestamp (last_tx_second st) (last_tx_pps st)
                 (of_nat (length (buf frame) div sizeof_complexf)) (sampleRate (myConf st))
               \<noteq> Some (timestamp_sec (ts frame), timestamp_pps (ts frame)))
              (st\<lparr>md := (md st)\<lparr>has_time_spec := True,
                      time_spec := TimeSpec (timestamp_sec (ts frame)) (timestamp_pps (ts frame))\<rparr>\<rparr>))"
    using handle_frame_timestamped [of st frame env] by blast
next
  show "\<exists>s1 p1 s2 p2.
           expected_timestamp sec pps N rate = Some (s1, p1) \<and> unat p1 < 16384000 \<and>
           expected_timestamp s1 p1 M rate = Some (s2, p2) \<and> unat p2 < 16384000 \<and>
           expected_timestamp sec pps (N + M) rate = Some (s2, p2)"
  proof -
  define r where "r = unat rate"
  define iN where "iN = unat N * 16384000 div r"
  define iM where "iM = unat M * 16384000 div r"
  have nm: "unat (N + M) = unat N + unat M"
  proof -
    have "unat N + unat M < 2 ^ 64" using ov by simp
    then show ?thesis by (simp add: unat_plus_if')
  qed
  have ovN: "unat N * 16384000 < 2 ^ 64" and ovM: "unat M * 16384000 < 2 ^ 64"
    using ov by simp_all
  have incN: "unat (increment_of N rate) = iN"
    using unat_increment_of [OF ovN] by (simp add: iN_def r_def)
  have incM: "unat (increment_of M rate) = iM"
    using unat_increment_of [OF ovM] by (simp add: iM_def r_def)
  have "unat (increment_of (N + M) rate) = (unat N * 16384000 + unat M * 16384000) div r"
    using unat_increment_of [of "N + M" rate] ov
    by (simp add: nm r_def add_mult_distrib)
  also have "\<dots> = iN + iM"
    unfolding iN_def iM_def using ex by (intro floor_add) (simp add: r_def)
  finally have incNM: "unat (increment_of (N + M) rate) = iN + iM" .
  define s1 :: u32 where "s1 = sec + of_nat ((unat pps + iN) div 16384000)"
  define p1 :: u32 where "p1 = of_nat ((unat pps + iN) mod 16384000)"
  have up1: "unat p1 = (unat pps + iN) mod 16384000"
    unfolding p1_def by (rule unat_pps_of_nat)
  have p1: "unat p1 < 16384000"
    by (simp add: up1)
  have e1: "expected_timestamp sec pps N rate = Some (s1, p1)"
    using expected_timestamp_ticks [OF R p, of sec N] by (simp add: incN s1_def p1_def)
  define s2 :: u32 where "s2 = s1 + of_nat ((unat p1 + iM) div 16384000)"
  define p2 :: u32 where "p2 = of_nat ((unat p1 + iM) mod 16384000)"
  have p2: "unat p2 < 16384000"
    unfolding p2_def by (simp add: unat_pps_of_nat)
  have e2: "expected_timestamp s1 p1 M rate = Some (s2, p2)"
    using expected_timestamp_ticks [OF R p1, of s1 M] by (simp add: incM s2_def p2_def)
  have dv: "(unat pps + iN) div 16384000 + (unat p1 + iM) div 16384000
              = (unat pps + (iN + iM)) div 16384000"
    using div_mod_carry [of "unat pps + iN" 16384000 iM]
    by (simp only: up1 add.commute add.assoc add.left_commute)
  have md: "(unat p1 + iM) mod 16384000 = (unat pps + (iN + iM)) mod 16384000"
    by (simp add: up1 mod_add_left_eq add.assoc)
  have s2': "s2 = sec + of_nat ((unat pps + (iN + iM)) div 16384000)"
    unfolding s2_def s1_def by (simp only: dv [symmetric] of_nat_add add.assoc)
  have e3: "expected_timestamp sec pps (N + M) rate = Some (s2, p2)"
    using expected_timestamp_ticks [OF R p, of sec "N + M"]
    by (simp only: incNM s2' p2_def md)
  show ?thesis
    using e1 p1 e2 p2 e3 by blast
  qed
qed

theorem C1_timestamp_advance_witness:
  "(2048000 :: u32) \<noteq> 0 \<and> unat (16000000 :: u32) < 16384000 \<and>
   (unat (196608 :: u64) + unat (196608 :: u64)) * 16384000 < 2 ^ 64 \<and>
   unat (196608 :: u64) * 16384000 mod unat (2048000 :: u32) +
     unat (196608 :: u64) * 16384000 mod unat (2048000 :: u32) < unat (2048000 :: u32) \<and>
   expected_timestamp 7 16000000 196608 2048000 = Some (8, 1188864) \<and>
   (\<exists>s1 p1 s2 p2.
      expected_timestamp 7 16000000 196608 2048000 = Some (s1, p1) \<and> unat p1 < 16384000 \<and>
      expected_timestamp s1 p1 196608 2048000 = Some (s2, p2) \<and> unat p2 < 16384000 \<and>
      expected_timestamp 7 16000000 (196608 + 196608) 2048000 = Some (s2, p2)) \<and>
   expected_timestamp 0 32768005 0 2048000 = Some (2, 5) \<and> unat (5 :: u32) < 16384000 \<and>
   refclk_loss_needs_check
     (uhd0\<lparr>myConf := conf0\<lparr>refclk_src := ''gpsdo''\<rparr>, last_tx_time_initialised := True\<rparr>) \<and>
   ref_locked wenv0 = Sensor_value True \<and>
   expected_timestamp 0 0 (of_nat (length (buf frame0) div sizeof_complexf)) 2048000 = Some (0, 32) \<and>
   fst (handle_frame wenv0 frame0
     (uhd0\<lparr>myConf := conf0\<lparr>refclk_src := ''gpsdo''\<rparr>, last_tx_time_initialised := True\<rparr>)) = None \<and>
   actions (snd (handle_frame wenv0 frame0
     (uhd0\<lparr>myConf := conf0\<lparr>refclk_src := ''gpsdo''\<rparr>, last_tx_time_initialised := True\<rparr>))) =
     map Send (tx_frame wenv0 frame0 True
       (uhd0\<lparr>myConf := conf0\<lparr>refclk_src := ''gpsdo''\<rparr>, last_tx_time_initialised := True,
             md := md_init\<lparr>has_time_spec := True, time_spec := TimeSpec 0 0\<rparr>\<rparr>))"
proof -
  let ?st = "uhd0\<lparr>myConf := conf0\<lparr>refclk_src := ''gpsdo''\<rparr>, last_tx_time_initialised := True\<rparr>"
  have e: "expected_timestamp 0 0 (of_nat (length (buf frame0) div sizeof_complexf)) 2048000 = Some (0, 32)"
    by (simp add: expected_timestamp_def increment_of_def carry_pps.simps frame0_def bytes16_def
        sizeof_complexf_def)
  have c: "expected_timestamp 0 32768005 0 2048000 = Some (2, 5)"
    by (simp add: expected_timestamp_def increment_of_def carry_pps.simps)
  have nc: "refclk_loss_needs_check ?st"
    by (simp add: refclk_loss_needs_check_def uhd0_def conf0_def)
  have rl: "ref_locked wenv0 = Sensor_value True"
    by (simp add: wenv0_def)
  have st: "sourceContainsTimestamp ?st \<and> timestamp_valid (ts frame0) \<and>
      last_tx_time_initialised ?st \<and> sampleRate (myConf ?st) = 2048000 \<and>
      \<not> ts_in_past wenv0 \<and> \<not> ts_in_far_future wenv0 \<and>
      last_tx_second ?st = 0 \<and> last_tx_pps ?st = 0 \<and> actions ?st = [] \<and> md ?st = md_init \<and>
      timestamp_sec (ts frame0) = 0 \<and> timestamp_pps (ts frame0) = 0"
    by (simp add: uhd0_def conf0_def frame0_def ts0_def wenv0_def)
  have t: "expected_timestamp 7 16000000 196608 2048000 = Some (8, 1188864)"
    by (simp add: expected_timestamp_def increment_of_def carry_pps.simps)
  note inst = C1_timestamp_advance [of 2048000 16000000 196608 196608 7 0 32768005 0 2048000 2 5
        ?st frame0 wenv0]
  have hyps: "(2048000 :: u32) \<noteq> 0" "unat (16000000 :: u32) < 16384000"
    "(unat (196608 :: u64) + unat (196608 :: u64)) * 16384000 < 2 ^ 64"
    "unat (196608 :: u64) * 16384000 mod unat (2048000 :: u32) +
     unat (196608 :: u64) * 16384000 mod unat (2048000 :: u32) < unat (2048000 :: u32)"
    by simp_all
  note i = inst [OF hyps]
  have ex: "\<exists>s1 p1 s2 p2.
      expected_timestamp 7 16000000 196608 2048000 = Some (s1, p1) \<and> unat p1 < 16384000 \<and>
      expected_timestamp s1 p1 196608 2048000 = Some (s2, p2) \<and> unat p2 < 16384000 \<and>
      expected_timestamp 7 16000000 (196608 + 196608) 2048000 = Some (s2, p2)"
    by (rule i [THEN conjunct2, THEN conjunct1])
  have "fst (handle_frame wenv0 frame0 ?st) = None \<and>
    actions (snd (handle_frame wenv0 frame0 ?st)) =
      map Send (tx_frame wenv0 frame0 True
        (?st\<lparr>md := md_init\<lparr>has_time_spec := True, time_spec := TimeSpec 0 0\<rparr>\<rparr>))"
    using i [THEN conjunct2, THEN conjunct2, THEN conjunct2] st rl e by simp
  then show ?thesis
    using hyps ex e c nc rl t by simp
qed

subsection \<open>Sending a frame in chunks\<close>

lemma tx_loop_Nil:
  "\<not> (r \<and> \<not> m \<and> acc < sizeIn) \<Longrightarrow> tx_loop env r m e md0 d sizeIn acc = []"
  by (subst tx_loop.simps) auto

lemma tx_loop_Cons:
  "r \<and> \<not> m \<and> acc < sizeIn \<Longrightarrow>
     tx_loop env r m e md0 d sizeIn acc =
       \<lparr>first_samp = acc, nsamps = min (sizeIn - acc) (max_num_samps env),
        samples = take (min (sizeIn - acc) (max_num_samps env) * sizeof_complexf)
                    (drop (acc * sizeof_complexf) d),
        md_tx = md0\<lparr>end_of_burst := e\<rparr>\<rparr>
       # (if send_result env acc (min (sizeIn - acc) (max_num_samps env)) = 0 then []
          else tx_loop env r m e md0 d sizeIn
                 (acc + send_result env acc (min (sizeIn - acc) (max_num_samps env))))"
  by (subst tx_loop.simps) (simp add: Let_def)

lemma tx_loop_chunk:
  "c \<in> set (tx_loop env r m e md0 d sizeIn acc) \<Longrightarrow>
     nsamps c = min (sizeIn - first_samp c) (max_num_samps env) \<and>
     samples c = take (nsamps c * sizeof_complexf) (drop (first_samp c * sizeof_complexf) d) \<and>
     end_of_burst (md_tx c) = e \<and> time_spec (md_tx c) = time_spec md0 \<and>
     has_time_spec (md_tx c) = has_time_spec md0"
proof (induction env r m e md0 d sizeIn acc rule: tx_loop.induct)
  case (1 env r m e md0 d sizeIn acc)
  show ?case
  proof (cases "r \<and> \<not> m \<and> acc < sizeIn")
    case False
    then show ?thesis
      using "1.prems" by (simp add: tx_loop_Nil)
  next
    case True
    let ?n = "min (sizeIn - acc) (max_num_samps env)"
    show ?thesis
    proof (cases "send_result env acc ?n = 0")
      case True
      with \<open>r \<and> \<not> m \<and> acc < sizeIn\<close> "1.prems" show ?thesis
        by (auto simp add: tx_loop_Cons)
    next
      case False
      from "1.prems" True False
      have "c = \<lparr>first_samp = acc, nsamps = ?n,
                 samples = take (?n * sizeof_complexf) (drop (acc * sizeof_complexf) d),
                 md_tx = md0\<lparr>end_of_burst := e\<rparr>\<rparr> \<or>
            c \<in> set (tx_loop env r m e md0 d sizeIn (acc + send_result env acc ?n))"
        by (simp add: tx_loop_Cons)
      then show ?thesis
      proof
        assume "c = \<lparr>first_samp = acc, nsamps = ?n,
                 samples = take (?n * sizeof_complexf) (drop (acc * sizeof_complexf) d),
                 md_tx = md0\<lparr>end_of_burst := e\<rparr>\<rparr>"
        then show ?thesis by simp
      next
        assume "c \<in> set (tx_loop env r m e md0 d sizeIn (acc + send_result env acc ?n))"
        then show ?thesis
          using "1.IH" [OF True refl refl refl refl refl False] by simp
      qed
    qed
  qed
qed

lemma tx_loop_first:
  "tx_loop env r m e md0 d sizeIn acc \<noteq> [] \<Longrightarrow>
     first_samp (hd (tx_loop env r m e md0 d sizeIn acc)) = acc"
  by (cases "r \<and> \<not> m \<and> acc < sizeIn") (simp_all add: tx_loop_Nil tx_loop_Cons)

lemma tx_loop_next:
  "Suc i < length (tx_loop env r m e md0 d sizeIn acc) \<Longrightarrow>
     first_samp (tx_loop env r m e md0 d sizeIn acc ! Suc i) =
       first_samp (tx_loop env r m e md0 d sizeIn acc ! i) +
       send_result env (first_samp (tx_loop env r m e md0 d sizeIn acc ! i))
                       (nsamps (tx_loop env r m e md0 d sizeIn acc ! i))"
proof (induction env r m e md0 d sizeIn acc arbitrary: i rule: tx_loop.induct)
  case (1 env r m e md0 d sizeIn acc)
  show ?case
  proof (cases "r \<and> \<not> m \<and> acc < sizeIn")
    case False
    then show ?thesis
      using "1.prems" by (simp add: tx_loop_Nil)
  next
    case True
    let ?n = "min (sizeIn - acc) (max_num_samps env)"
    let ?rest = "tx_loop env r m e md0 d sizeIn (acc + send_result env acc ?n)"
    have nz: "send_result env acc ?n \<noteq> 0"
      using "1.prems" True by (auto simp add: tx_loop_Cons split: if_splits)
    have unfold: "tx_loop env r m e md0 d sizeIn acc =
        \<lparr>first_samp = acc, nsamps = ?n,
         samples = take (?n * sizeof_complexf) (drop (acc * sizeof_complexf) d),
         md_tx = md0\<lparr>end_of_burst := e\<rparr>\<rparr> # ?rest"
      using True nz by (simp add: tx_loop_Cons)
    show ?thesis
    proof (cases i)
      case 0
      have "?rest \<noteq> []"
        using "1.prems" 0 unfold by auto
      then have "first_samp (hd ?rest) = acc + send_result env acc ?n"
        by (rule tx_loop_first)
      then show ?thesis
        using 0 \<open>?rest \<noteq> []\<close> by (simp add: unfold hd_conv_nth)
    next
      case (Suc j)
      have "Suc j < length ?rest"
        using "1.prems" Suc unfold by simp
      then show ?thesis
        using "1.IH" [OF True refl refl refl refl refl nz, of j] Suc by (simp add: unfold)
    qed
  qed
qed

lemma tx_loop_last:
  "tx_loop env r m e md0 d sizeIn acc \<noteq> [] \<Longrightarrow>
     send_result env (first_samp (last (tx_loop env r m e md0 d sizeIn acc)))
                     (nsamps (last (tx_loop env r m e md0 d sizeIn acc))) = 0 \<or>
     sizeIn \<le> first_samp (last (tx_loop env r m e md0 d sizeIn acc)) +
              send_result env (first_samp (last (tx_loop env r m e md0 d sizeIn acc)))
                              (nsamps (last (tx_loop env r m e md0 d sizeIn acc)))"
proof (induction env r m e md0 d sizeIn acc rule: tx_loop.induct)
  case (1 env r m e md0 d sizeIn acc)
  show ?case
  proof (cases "r \<and> \<not> m \<and> acc < sizeIn")
    case False
    then show ?thesis
      using "1.prems" by (simp add: tx_loop_Nil)
  next
    case True
    let ?n = "min (sizeIn - acc) (max_num_samps env)"
    let ?rest = "tx_loop env r m e md0 d sizeIn (acc + send_result env acc ?n)"
    show ?thesis
    proof (cases "send_result env acc ?n = 0")
      case True
      with \<open>r \<and> \<not> m \<and> acc < sizeIn\<close> show ?thesis
        by (simp add: tx_loop_Cons)
    next
      case nz: False
      have unfold: "tx_loop env r m e md0 d sizeIn acc =
          \<lparr>first_samp = acc, nsamps = ?n,
           samples = take (?n * sizeof_complexf) (drop (acc * sizeof_complexf) d),
           md_tx = md0\<lparr>end_of_burst := e\<rparr>\<rparr> # ?rest"
        using True nz by (simp add: tx_loop_Cons)
      show ?thesis
      proof (cases "?rest = []")
        case False
        then show ?thesis
          using "1.IH" [OF True refl refl refl refl refl nz] by (simp add: unfold)
      next
        case empty: True
        have "\<not> (r \<and> \<not> m \<and> acc + send_result env acc ?n < sizeIn)"
        proof
          assume "r \<and> \<not> m \<and> acc + send_result env acc ?n < sizeIn"
          then have "?rest \<noteq> []"
            by (simp add: tx_loop_Cons)
          with empty show False by simp
        qed
        then have "sizeIn \<le> acc + send_result env acc ?n"
          using True by simp
        then show ?thesis
          using empty by (simp add: unfold)
      qed
    qed
  qed
qed

lemma tx_loop_sends_whole_frame:
  "r \<Longrightarrow> \<not> m \<Longrightarrow> 0 < max_num_samps env \<Longrightarrow> (\<And>f n. send_result env f n = n) \<Longrightarrow>
     sum_list (map nsamps (tx_loop env r m e md0 d sizeIn acc)) = sizeIn - acc"
proof (induction env r m e md0 d sizeIn acc rule: tx_loop.induct)
  case (1 env r m e md0 d sizeIn acc)
  show ?case
  proof (cases "acc < sizeIn")
    case False
    then show ?thesis
      by (simp add: tx_loop_Nil)
  next
    case True
    let ?n = "min (sizeIn - acc) (max_num_samps env)"
    have pos: "send_result env acc ?n \<noteq> 0"
      using True "1.prems" by simp
    have c: "r \<and> \<not> m \<and> acc < sizeIn"
      using True "1.prems" by simp
    have "sum_list (map nsamps (tx_loop env r m e md0 d sizeIn (acc + send_result env acc ?n)))
            = sizeIn - (acc + send_result env acc ?n)"
      using "1.IH" [OF c refl refl refl refl refl pos] "1.prems" by simp
    then show ?thesis
      using c pos "1.prems" by (simp add: tx_loop_Cons)
  qed
qed

text \<open>
  C3, as stated, fails. With a frame of four samples and a driver that takes two at a time,
  the first of the two chunks carries \<open>end_of_burst\<close> when the refresh flag is set; and when
  the source has no timestamps the last chunk does not carry it although the refresh flag
  is set.
\<close>

theorem C3_end_of_burst_counterexample:
  "length (tx_frame wenv0 (frame0\<lparr>ts := ts0\<lparr>timestamp_refresh := True\<rparr>\<rparr>) False uhd0) = 2 \<and>
   end_of_burst (md_tx (hd (tx_frame wenv0 (frame0\<lparr>ts := ts0\<lparr>timestamp_refresh := True\<rparr>\<rparr>)
                              False uhd0))) \<and>
   \<not> end_of_burst (md_tx (last (tx_frame wenv0 (frame0\<lparr>ts := ts0\<lparr>timestamp_refresh := True\<rparr>\<rparr>)
                                  False (uhd0\<lparr>sourceContainsTimestamp := False\<rparr>))))"
  by (simp add: tx_frame_def tx_loop.simps wenv0_def frame0_def ts0_def uhd0_def conf0_def
      bytes16_def md_init_def sizeof_complexf_def Let_def)

text \<open>
  C3, amended: a frame is sent when the transmitter runs and is not muted, and then all of it
  is sent, in consecutive chunks. The first chunk starts at sample 0; every chunk asks the
  driver for the samples that are left, but for at most \<open>max_num_samps\<close>, and hands it
  exactly those samples of the frame; every further chunk starts where the driver stopped
  accepting the one before; and the chunks end only when the driver has accepted the whole
  frame or accepts nothing. With a driver that accepts what it is asked to send, the sizes
  of the chunks add up to the size of the frame. The last chunk carries \<open>end_of_burst\<close>
  exactly when the source contains timestamps and the refresh flag of the frame or the
  \<open>ts_update\<close> flag is set.
\<close>

theorem C3_chunks_and_end_of_burst:
  "(\<forall>c \<in> set (tx_frame env frame upd st).
      nsamps c \<le> max_num_samps env \<and>
      nsamps c = min (length (buf frame) div sizeof_complexf - first_samp c) (max_num_samps env) \<and>
      samples c = take (nsamps c * sizeof_complexf) (drop (first_samp c * sizeof_complexf) (buf frame))) \<and>
   (tx_frame env frame upd st \<noteq> [] \<longleftrightarrow>
      running st \<and> \<not> muting (myConf st) \<and> 0 < length (buf frame) div sizeof_complexf) \<and>
   (tx_frame env frame upd st \<noteq> [] \<longrightarrow> first_samp (hd (tx_frame env frame upd st)) = 0) \<and>
   (Suc i < length (tx_frame env frame upd st) \<longrightarrow>
      first_samp (tx_frame env frame upd st ! Suc i) =
        first_samp (tx_frame env frame upd st ! i) +
        send_result env (first_samp (tx_frame env frame upd st ! i))
                        (nsamps (tx_frame env frame upd st ! i))) \<and>
   (tx_frame env frame upd st \<noteq> [] \<longrightarrow>
      send_result env (first_samp (last (tx_frame env frame upd st)))
                      (nsamps (last (tx_frame env frame upd st))) = 0 \<or>
      length (buf frame) div sizeof_complexf \<le>
        first_samp (last (tx_frame env frame upd st)) +
        send_result env (first_samp (last (tx_frame env frame upd st)))
                        (nsamps (last (tx_frame env frame upd st)))) \<and>
   (running st \<and> \<not> muting (myConf st) \<and> 0 < max_num_samps env \<and>
    (\<forall>f n. send_result env f n = n) \<longrightarrow>
      sum_list (map nsamps (tx_frame env frame upd st)) = length (buf frame) div sizeof_complexf) \<and>
   (tx_frame env frame upd st \<noteq> [] \<longrightarrow>
      end_of_burst (md_tx (last (tx_frame env frame upd st))) =
        (sourceContainsTimestamp st \<and> (timestamp_refresh (ts frame) \<or> upd)))"
proof -
  let ?e = "sourceContainsTimestamp st \<and> (timestamp_refresh (ts frame) \<or> upd)"
  let ?size = "length (buf frame) div sizeof_complexf"
  let ?L = "tx_loop env (running st) (muting (myConf st)) ?e (md st) (buf frame) ?size 0"
  have L: "tx_frame env frame upd st = ?L"
    by (simp add: tx_frame_def Let_def)
  have chunk: "\<forall>c \<in> set ?L.
      nsamps c \<le> max_num_samps env \<and>
      nsamps c = min (?size - first_samp c) (max_num_samps env) \<and>
      samples c = take (nsamps c * sizeof_complexf) (drop (first_samp c * sizeof_complexf) (buf frame))"
    using tx_loop_chunk by fastforce
  have nonempty: "?L \<noteq> [] \<longleftrightarrow> running st \<and> \<not> muting (myConf st) \<and> 0 < ?size"
    by (cases "running st \<and> \<not> muting (myConf st) \<and> 0 < ?size")
       (simp_all add: tx_loop_Nil tx_loop_Cons)
  have first: "?L \<noteq> [] \<longrightarrow> first_samp (hd ?L) = 0"
    using tx_loop_first by blast
  have nxt: "Suc i < length ?L \<longrightarrow>
      first_samp (?L ! Suc i) =
        first_samp (?L ! i) + send_result env (first_samp (?L ! i)) (nsamps (?L ! i))"
    using tx_loop_next by blast
  have lst: "?L \<noteq> [] \<longrightarrow>
      send_result env (first_samp (last ?L)) (nsamps (last ?L)) = 0 \<or>
      ?size \<le> first_samp (last ?L) + send_result env (first_samp (last ?L)) (nsamps (last ?L))"
    using tx_loop_last by blast
  have whole: "running st \<and> \<not> muting (myConf st) \<and> 0 < max_num_samps env \<and>
      (\<forall>f n. send_result env f n = n) \<longrightarrow> sum_list (map nsamps ?L) = ?size"
    using tx_loop_sends_whole_frame [of "running st" "muting (myConf st)" env ?e "md st"
        "buf frame" ?size 0]
    by simp
  have eob: "?L \<noteq> [] \<longrightarrow> end_of_burst (md_tx (last ?L)) = ?e"
  proof
    assume "?L \<noteq> []"
    then have "last ?L \<in> set ?L"
      by (rule last_in_set)
    then show "end_of_burst (md_tx (last ?L)) = ?e"
      using tx_loop_chunk by blast
  qed
  show ?thesis
    unfolding L using chunk nonempty first nxt lst whole eob by blast
qed

theorem C3_chunks_and_end_of_burst_witness:
  "running uhd0 \<and> \<not> muting (myConf uhd0) \<and> 0 < max_num_samps wenv0 \<and>
   send_result wenv0 0 2 = 2 \<and> length (buf frame0) div sizeof_complexf = 4 \<and>
   tx_frame wenv0 (frame0\<lparr>ts := ts0\<lparr>timestamp_refresh := True\<rparr>\<rparr>) False uhd0 \<noteq> [] \<and>
   Suc 0 < length (tx_frame wenv0 (frame0\<lparr>ts := ts0\<lparr>timestamp_refresh := True\<rparr>\<rparr>) False uhd0) \<and>
   nsamps (hd (tx_frame wenv0 (frame0\<lparr>ts := ts0\<lparr>timestamp_refresh := True\<rparr>\<rparr>) False uhd0)) \<le> 2 \<and>
   first_samp (hd (tx_frame wenv0 (frame0\<lparr>ts := ts0\<lparr>timestamp_refresh := True\<rparr>\<rparr>) False uhd0)) = 0 \<and>
   first_samp (tx_frame wenv0 (frame0\<lparr>ts := ts0\<lparr>timestamp_refresh := True\<rparr>\<rparr>) False uhd0 ! Suc 0) = 2 \<and>
   sum_list (map nsamps (tx_frame wenv0 (frame0\<lparr>ts := ts0\<lparr>timestamp_refresh := True\<rparr>\<rparr>) False uhd0)) = 4 \<and>
   end_of_burst (md_tx (last (tx_frame wenv0 (frame0\<lparr>ts := ts0\<lparr>timestamp_refresh := True\<rparr>\<rparr>)
                               False uhd0)))"
proof -
  let ?f = "frame0\<lparr>ts := ts0\<lparr>timestamp_refresh := True\<rparr>\<rparr>"
  let ?L = "tx_frame wenv0 ?f False uhd0"
  have pre: "running uhd0 \<and> \<not> muting (myConf uhd0) \<and> 0 < max_num_samps wenv0 \<and>
      (\<forall>f n. send_result wenv0 f n = n) \<and> length (buf ?f) div sizeof_complexf = 4 \<and>
      length (buf frame0) div sizeof_complexf = 4 \<and> max_num_samps wenv0 = 2 \<and>
      sourceContainsTimestamp uhd0 \<and> timestamp_refresh (ts ?f)"
    by (simp add: uhd0_def conf0_def wenv0_def frame0_def bytes16_def sizeof_complexf_def)
  have two: "length ?L = 2"
    by (simp add: tx_frame_def tx_loop.simps wenv0_def frame0_def ts0_def uhd0_def conf0_def
        bytes16_def md_init_def sizeof_complexf_def Let_def)
  then have ne: "?L \<noteq> []" and one: "Suc 0 < length ?L"
    by auto
  have hd_in: "hd ?L \<in> set ?L"
    using ne by (rule hd_in_set)
  note t = C3_chunks_and_end_of_burst [of wenv0 ?f False uhd0 0]
  have first: "first_samp (hd ?L) = 0"
    using t ne by blast
  have h0: "?L ! 0 = hd ?L"
    using ne by (simp add: hd_conv_nth)
  have size0: "nsamps (hd ?L) = 2"
    using t hd_in first pre by simp
  have second: "first_samp (?L ! Suc 0) = 2"
    using t one first size0 pre h0 by simp
  have whole: "sum_list (map nsamps ?L) = 4"
    using t pre by simp
  have eob: "end_of_burst (md_tx (last ?L))"
    using t ne pre by simp
  show ?thesis
    using pre ne one first size0 second whole eob by simp
qed

subsection \<open>The transmit loop: muting, counters and prebuffering\<close>

lemma handle_frame_counters:
  "num_underflows (snd (handle_frame env frame st)) = num_underflows st \<and>
   num_frames_modulated (snd (handle_frame env frame st)) = num_frames_modulated st \<and>
   frames (snd (handle_frame env frame st)) = frames st"
  by (simp add: handle_frame_def Let_def)

lemma handle_frame_invalid_timestamp:
  assumes inv: "\<not> timestamp_valid (ts frame)" and mute: "muteNoTimestamps (myConf st)"
    and ok: "refclk_loss_needs_check st \<and> ref_locked env = Sensor_value False \<longrightarrow>
             refclk_lock_loss_behaviour (myConf st) = IGNORE"
  shows "fst (handle_frame env frame st) = None \<and>
         actions (snd (handle_frame env frame st)) = actions st @ [Usleep 20000]"
proof -
  have "refclk_lock_loss_behaviour (myConf st) = CRASH \<Longrightarrow>
        \<not> (refclk_loss_needs_check st \<and> ref_locked env = Sensor_value False)"
    using ok by auto
  then show ?thesis
    using inv mute by (auto simp add: handle_frame_def Let_def)
qed

text \<open>
  C6, as stated, fails. In DAB mode 1 the frame lasts 96 ms, but a frame without a valid
  timestamp makes the loop sleep 20 000 microseconds, and the counter of modulated frames
  goes from 0 to 1.
\<close>

theorem C6_mute_counterexample:
  "actions (snd (snd (worker_iteration wenv0 \<lparr>last_num_underflows = 0, pop_prebuffering = 1\<rparr>
      (uhd0\<lparr>frames := [frame0\<lparr>ts := ts0\<lparr>timestamp_valid := False\<rparr>\<rparr>]\<rparr>))))
     = [Usleep 20000] \<and>
   transmission_frame_duration_ms (dabMode (myConf uhd0)) = Inr 96 \<and>
   num_frames_modulated uhd0 = 0 \<and>
   num_frames_modulated (snd (snd (worker_iteration wenv0 \<lparr>last_num_underflows = 0, pop_prebuffering = 1\<rparr>
      (uhd0\<lparr>frames := [frame0\<lparr>ts := ts0\<lparr>timestamp_valid := False\<rparr>\<rparr>]\<rparr>)))) = 1"
  by (simp add: worker_iteration_def wait_and_pop_def handle_frame_def
      refclk_loss_needs_check_def transmission_frame_duration_ms_def FRAMES_MAX_SIZE_def
      wenv0_def uhd0_def conf0_def frame0_def ts0_def md_init_def Let_def)

text \<open>
  C6, amended: when the frame taken from the queue has no valid timestamp and
  \<open>mute_no_timestamps\<close> is enabled, and the reference-clock check does not abort the
  transmitter, no samples are sent to the SDR, the transmit loop sleeps 20 000 microseconds,
  and the counter of modulated frames goes up by one.
\<close>

theorem C6_mute_on_missing_timestamp:
  assumes pop: "wait_and_pop (frames st) (pop_prebuffering loc) = Some (frame, rest)"
    and inv: "\<not> timestamp_valid (ts frame)" and mute: "muteNoTimestamps (myConf st)"
    and ok: "refclk_loss_needs_check st \<and> ref_locked env = Sensor_value False \<longrightarrow>
             refclk_lock_loss_behaviour (myConf st) = IGNORE"
  shows "fst (worker_iteration env loc st) = Iterated \<and>
         actions (snd (snd (worker_iteration env loc st))) = actions st @ [Usleep 20000] \<and>
         num_frames_modulated (snd (snd (worker_iteration env loc st))) =
           num_frames_modulated st + 1"
proof -
  let ?st = "st\<lparr>md := (md st)\<lparr>has_time_spec := False, time_spec := TimeSpec 0 0\<rparr>, frames := rest\<rparr>"
  have ok': "refclk_loss_needs_check ?st \<and> ref_locked env = Sensor_value False \<longrightarrow>
             refclk_lock_loss_behaviour (myConf ?st) = IGNORE"
    using ok by (simp add: refclk_loss_needs_check_def)
  have mute': "muteNoTimestamps (myConf ?st)"
    using mute by simp
  note h = handle_frame_invalid_timestamp [OF inv mute' ok'] handle_frame_counters [of env frame ?st]
  obtain r st1 where hf: "handle_frame env frame ?st = (r, st1)"
    by (cases "handle_frame env frame ?st")
  with h have r: "r = None" and a: "actions st1 = actions st @ [Usleep 20000]"
    and n: "num_frames_modulated st1 = num_frames_modulated st"
    by simp_all
  show ?thesis
    using pop hf r a n by (simp add: worker_iteration_def Let_def)
qed

theorem C6_mute_on_missing_timestamp_witness:
  "wait_and_pop (frames (uhd0\<lparr>frames := [frame0\<lparr>ts := ts0\<lparr>timestamp_valid := False\<rparr>\<rparr>]\<rparr>))
       (pop_prebuffering \<lparr>last_num_underflows = 0, pop_prebuffering = 1\<rparr>)
     = Some (frame0\<lparr>ts := ts0\<lparr>timestamp_valid := False\<rparr>\<rparr>,
             []) \<and>
   \<not> timestamp_valid (ts (frame0\<lparr>ts := ts0\<lparr>timestamp_valid := False\<rparr>\<rparr>)) \<and>
   muteNoTimestamps (myConf uhd0) \<and>
   fst (worker_iteration wenv0 \<lparr>last_num_underflows = 0, pop_prebuffering = 1\<rparr>
      (uhd0\<lparr>frames := [frame0\<lparr>ts := ts0\<lparr>timestamp_valid := False\<rparr>\<rparr>]\<rparr>)) = Iterated \<and>
   actions (snd (snd (worker_iteration wenv0 \<lparr>last_num_underflows = 0, pop_prebuffering = 1\<rparr>
      (uhd0\<lparr>frames := [frame0\<lparr>ts := ts0\<lparr>timestamp_valid := False\<rparr>\<rparr>]\<rparr>))))
     = [Usleep 20000] \<and>
   num_frames_modulated (snd (snd (worker_iteration wenv0 \<lparr>last_num_underflows = 0, pop_prebuffering = 1\<rparr>
      (uhd0\<lparr>frames := [frame0\<lparr>ts := ts0\<lparr>timestamp_valid := False\<rparr>\<rparr>]\<rparr>)))) = 1"
proof -
  have pop: "wait_and_pop (frames (uhd0\<lparr>frames := [frame0\<lparr>ts := ts0\<lparr>timestamp_valid := False\<rparr>\<rparr>]\<rparr>))
       (pop_prebuffering \<lparr>last_num_underflows = 0, pop_prebuffering = 1\<rparr>)
     = Some (frame0\<lparr>ts := ts0\<lparr>timestamp_valid := False\<rparr>\<rparr>,
             [])"
    by (simp add: wait_and_pop_def FRAMES_MAX_SIZE_def)
  have inv: "\<not> timestamp_valid (ts (frame0\<lparr>ts := ts0\<lparr>timestamp_valid := False\<rparr>\<rparr>))"
    by simp
  have mute: "muteNoTimestamps (myConf (uhd0\<lparr>frames := [frame0\<lparr>ts := ts0\<lparr>timestamp_valid := False\<rparr>\<rparr>]\<rparr>))"
    by (simp add: uhd0_def conf0_def)
  have ok: "refclk_loss_needs_check (uhd0\<lparr>frames := [frame0\<lparr>ts := ts0\<lparr>timestamp_valid := False\<rparr>\<rparr>]\<rparr>) \<and>
      ref_locked wenv0 = Sensor_value False \<longrightarrow>
      refclk_lock_loss_behaviour (myConf (uhd0\<lparr>frames := [frame0\<lparr>ts := ts0\<lparr>timestamp_valid := False\<rparr>\<rparr>]\<rparr>)) = IGNORE"
    by (simp add: uhd0_def conf0_def)
  show ?thesis
    using pop inv mute C6_mute_on_missing_timestamp [OF pop inv mute ok]
    by (simp add: uhd0_def conf0_def)
qed


subsection \<open>Underflow events and prebuffering\<close>

lemma worker_iteration_waits:
  "length (frames st) < pop_prebuffering loc \<Longrightarrow> fst (worker_iteration env loc st) = Waiting"
  by (simp add: worker_iteration_def wait_and_pop_def Let_def)

text \<open>
  C7, as stated, fails: an \<open>UNDERFLOW_IN_PACKET\<close> event raises an alert and leaves the
  underflow counter as it was.
\<close>

theorem C7_underflow_in_packet_counterexample:
  "num_underflows uhd0 = 0 \<and>
   num_underflows (snd (print_async_iteration (Some EVENT_CODE_UNDERFLOW_IN_PACKET) False uhd0)) = 0 \<and>
   fst (print_async_iteration (Some EVENT_CODE_UNDERFLOW_IN_PACKET) False uhd0)
     = Some ''Underflow occurred inside a packet.''"
  by (simp add: print_async_iteration_def async_event_def uhd0_def)

text \<open>
  C7, amended: whenever the asynchronous-event thread receives an \<open>UNDERFLOW\<close> event, the
  underflow counter is incremented; an \<open>UNDERFLOW_IN_PACKET\<close> event raises an alert and is
  not counted, in every state; and
  whenever the counter is above its value after the previous frame when a frame has been
  handled, the next pop from the frame queue uses full prebuffering: it waits until 8 frames
  are present.
\<close>

theorem C7_underflow_prebuffering:
  "num_underflows (snd (print_async_iteration (Some EVENT_CODE_UNDERFLOW) due st))
     = num_underflows st + 1 \<and>
   num_underflows (snd (print_async_iteration (Some EVENT_CODE_UNDERFLOW_IN_PACKET) due st))
     = num_underflows st \<and>
   fst (print_async_iteration (Some EVENT_CODE_UNDERFLOW_IN_PACKET) due st)
     = Some ''Underflow occurred inside a packet.'' \<and>
   (fst (worker_iteration env loc st) = Iterated \<and> last_num_underflows loc < num_underflows st \<longrightarrow>
      pop_prebuffering (fst (snd (worker_iteration env loc st))) = 8 \<and>
      last_num_underflows (fst (snd (worker_iteration env loc st))) = num_underflows st \<and>
      (length (frames st_next) < 8 \<longrightarrow>
         fst (worker_iteration env_next (fst (snd (worker_iteration env loc st))) st_next) = Waiting))"
proof (intro conjI impI)
  show "num_underflows (snd (print_async_iteration (Some EVENT_CODE_UNDERFLOW) due st))
     = num_underflows st + 1"
    by (simp add: print_async_iteration_def async_event_def)
next
  show "num_underflows (snd (print_async_iteration (Some EVENT_CODE_UNDERFLOW_IN_PACKET) due st))
     = num_underflows st"
    by (simp add: print_async_iteration_def async_event_def)
next
  show "fst (print_async_iteration (Some EVENT_CODE_UNDERFLOW_IN_PACKET) due st)
     = Some ''Underflow occurred inside a packet.''"
    by (simp add: print_async_iteration_def async_event_def)
next
  assume a: "fst (worker_iteration env loc st) = Iterated \<and> last_num_underflows loc < num_underflows st"
  let ?st = "st\<lparr>md := (md st)\<lparr>has_time_spec := False, time_spec := TimeSpec 0 0\<rparr>\<rparr>"
  from a obtain frame rest where pop: "wait_and_pop (frames ?st) (pop_prebuffering loc) = Some (frame, rest)"
    by (cases "wait_and_pop (frames ?st) (pop_prebuffering loc)")
       (auto simp add: worker_iteration_def Let_def)
  obtain r st1 where hf: "handle_frame env frame (?st\<lparr>frames := rest\<rparr>) = (r, st1)"
    by (cases "handle_frame env frame (?st\<lparr>frames := rest\<rparr>)")
  have r: "r = None"
    using a pop hf by (cases r) (simp_all add: worker_iteration_def Let_def)
  have n: "num_underflows st1 = num_underflows st"
    using handle_frame_counters [of env frame "?st\<lparr>frames := rest\<rparr>"] hf by simp
  have loc': "fst (snd (worker_iteration env loc st)) =
      \<lparr>last_num_underflows = num_underflows st, pop_prebuffering = FRAMES_MAX_SIZE\<rparr>"
    using a pop hf r n by (simp add: worker_iteration_def Let_def)
  show "pop_prebuffering (fst (snd (worker_iteration env loc st))) = 8"
    by (simp add: loc' FRAMES_MAX_SIZE_def)
  show "last_num_underflows (fst (snd (worker_iteration env loc st))) = num_underflows st"
    by (simp add: loc')
  show "fst (worker_iteration env_next (fst (snd (worker_iteration env loc st))) st_next) = Waiting"
    if "length (frames st_next) < 8"
    using that by (intro worker_iteration_waits) (simp add: loc' FRAMES_MAX_SIZE_def)
qed

theorem C7_underflow_prebuffering_witness:
  "fst (worker_iteration wenv0 \<lparr>last_num_underflows = 0, pop_prebuffering = 1\<rparr>
         (uhd0\<lparr>frames := [frame0], num_underflows := 1\<rparr>)) = Iterated \<and>
   last_num_underflows \<lparr>last_num_underflows = 0, pop_prebuffering = 1\<rparr>
     < num_underflows (uhd0\<lparr>frames := [frame0], num_underflows := 1\<rparr>) \<and>
   length (frames (uhd0\<lparr>frames := [frame0, frame0]\<rparr>)) < 8 \<and>
   num_underflows (snd (print_async_iteration (Some EVENT_CODE_UNDERFLOW) True
       (uhd0\<lparr>frames := [frame0], num_underflows := 1\<rparr>))) = 2 \<and>
   num_underflows (snd (print_async_iteration (Some EVENT_CODE_UNDERFLOW_IN_PACKET) True
       (uhd0\<lparr>frames := [frame0], num_underflows := 1\<rparr>))) = 1 \<and>
   pop_prebuffering (fst (snd (worker_iteration wenv0 \<lparr>last_num_underflows = 0, pop_prebuffering = 1\<rparr>
         (uhd0\<lparr>frames := [frame0], num_underflows := 1\<rparr>)))) = 8 \<and>
   fst (worker_iteration wenv0
          (fst (snd (worker_iteration wenv0 \<lparr>last_num_underflows = 0, pop_prebuffering = 1\<rparr>
             (uhd0\<lparr>frames := [frame0], num_underflows := 1\<rparr>))))
          (uhd0\<lparr>frames := [frame0, frame0]\<rparr>)) = Waiting"
proof -
  have it: "fst (worker_iteration wenv0 \<lparr>last_num_underflows = 0, pop_prebuffering = 1\<rparr>
         (uhd0\<lparr>frames := [frame0], num_underflows := 1\<rparr>)) = Iterated"
    by (simp add: worker_iteration_def wait_and_pop_def handle_frame_def
        refclk_loss_needs_check_def wenv0_def uhd0_def conf0_def frame0_def ts0_def Let_def)
  show ?thesis
    using it C7_underflow_prebuffering [where due = True and env = wenv0 and env_next = wenv0
        and loc = "\<lparr>last_num_underflows = 0, pop_prebuffering = 1\<rparr>"
        and st = "uhd0\<lparr>frames := [frame0], num_underflows := 1\<rparr>"
        and st_next = "uhd0\<lparr>frames := [frame0, frame0]\<rparr>"]
    by (simp add: uhd0_def)
qed


subsection \<open>Frames with FCT = -1\<close>

















subsection \<open>Feedback: the transmit capture\<close>

lemma frame_timestamp_add_samples:
  "frame_timestamp_add t (sizeof_complexf * skip) (sizeof_complexf * rate) = frame_timestamp_add t skip rate"
proof -
  have "8 * skip * 16384000 div (8 * rate) = skip * 16384000 div rate"
    using div_mult_mult1 [of 8 "skip * 16384000" rate] by (simp add: mult.assoc)
  then show ?thesis
    by (simp add: frame_timestamp_add_def sizeof_complexf_def)
qed

lemma process_deliver_shows_frame_to_feedback:
  "running st \<Longrightarrow> fct (ts frame) \<noteq> - 1 \<Longrightarrow>
   set_tx_frame (buf frame) (ts frame) (uhdFeedback st) = (None, fb) \<Longrightarrow>
     uhdFeedback (snd (process_deliver len frame st)) = fb"
  by (simp add: process_deliver_def push_frame_def split: option.split)

text \<open>
  C9: in state \<open>SaveTransmitFrame\<close>, with the server running, a buffer of whole samples, a
  non-zero sample rate and a requested count below \<open>2 ^ 61\<close> (it arrives as a 32-bit number),
  \<open>set_tx_frame\<close> stores the trailing \<open>k = min (requested count) (frame length)\<close> samples of
  the frame, sets the count to \<open>k\<close>, sets the capture timestamp to the frame's timestamp
  advanced by the number of skipped leading samples over the sample rate, and moves to state
  \<open>SaveReceiveFrame\<close>. The timestamp advance is the operation of the data model of the
  specification (\<open>frame_timestamp_add\<close>); the source computes its argument in floating point.
\<close>

theorem C9_set_tx_frame:
  assumes run: "m_running fb" and whole: "length b mod sizeof_complexf = 0"
    and state: "burst_state fb = SaveTransmitFrame" and rate: "m_sampleRate fb \<noteq> 0"
    and req: "burst_num_samples fb < 2 ^ 61"
  shows "fst (set_tx_frame b buf_ts fb) = None \<and>
         burst_state (snd (set_tx_frame b buf_ts fb)) = SaveReceiveFrame \<and>
         burst_num_samples (snd (set_tx_frame b buf_ts fb))
           = min (burst_num_samples fb) (length b div sizeof_complexf) \<and>
         burst_tx_samples (snd (set_tx_frame b buf_ts fb))
           = drop ((length b div sizeof_complexf - min (burst_num_samples fb) (length b div sizeof_complexf))
                    * sizeof_complexf) b \<and>
         length (burst_tx_samples (snd (set_tx_frame b buf_ts fb)))
           = min (burst_num_samples fb) (length b div sizeof_complexf) * sizeof_complexf \<and>
         frame_timestamp_add buf_ts
             (length b div sizeof_complexf - min (burst_num_samples fb) (length b div sizeof_complexf))
             (unat (m_sampleRate fb))
           = Some (buf_ts\<lparr>timestamp_sec := burst_tx_second (snd (set_tx_frame b buf_ts fb)),
                          timestamp_pps := burst_tx_pps (snd (set_tx_frame b buf_ts fb))\<rparr>)"
proof -
  define total where "total = length b div sizeof_complexf"
  define k where "k = min (burst_num_samples fb) total"
  have len: "length b = sizeof_complexf * total"
    using whole by (simp add: total_def sizeof_complexf_def mod_0_imp_dvd)
  have nowrap: "(burst_num_samples fb * sizeof_complexf) mod 2 ^ 64 = sizeof_complexf * burst_num_samples fb"
    using req by (simp add: sizeof_complexf_def)
  have n: "min ((burst_num_samples fb * sizeof_complexf) mod 2 ^ 64) (length b) = sizeof_complexf * k"
    unfolding nowrap len k_def by (simp add: sizeof_complexf_def min_def)
  have start: "length b - sizeof_complexf * k = sizeof_complexf * (total - k)"
    by (simp add: len right_diff_distrib')
  have r: "unat (m_sampleRate fb) \<noteq> 0"
    using rate by (simp add: unat_eq_0)
  obtain t where t: "frame_timestamp_add buf_ts (total - k) (unat (m_sampleRate fb)) = Some t"
    and sec: "timestamp_sec t = timestamp_sec buf_ts + of_nat ((unat (timestamp_pps buf_ts) +
                (total - k) * 16384000 div unat (m_sampleRate fb)) div 16384000)"
    and tt: "t = buf_ts\<lparr>timestamp_sec := timestamp_sec t, timestamp_pps := timestamp_pps t\<rparr>"
    using r by (simp add: frame_timestamp_add_def Let_def)
  have res: "set_tx_frame b buf_ts fb =
      (None, fb\<lparr>burst_num_samples := k,
                 burst_tx_samples := drop (sizeof_complexf * (total - k)) b,
                 burst_tx_second := timestamp_sec t,
                 burst_tx_pps := timestamp_pps t,
                 burst_rx_second := timestamp_sec t,
                 burst_rx_pps := timestamp_pps t,
                 burst_state := SaveReceiveFrame\<rparr>)"
    unfolding set_tx_frame_def Let_def n start frame_timestamp_add_samples t
    using run whole state by (simp add: sizeof_complexf_def)
  have kl: "k \<le> total"
    by (simp add: k_def)
  have dl: "length (drop (sizeof_complexf * (total - k)) b) = k * sizeof_complexf"
    using kl by (simp add: len sizeof_complexf_def)
  show ?thesis
    unfolding res total_def [symmetric] k_def [symmetric]
    using dl t tt by (simp add: mult.commute)
qed

theorem C9_set_tx_frame_witness:
  "m_running ((OutputUHDFeedback_new 50055 2048000)\<lparr>burst_state := SaveTransmitFrame, burst_num_samples := 1\<rparr>) \<and>
   length (bytes16 @ bytes16) mod sizeof_complexf = 0 \<and>
   set_tx_frame (bytes16 @ bytes16) (ts0\<lparr>timestamp_pps := 16383990\<rparr>)
       ((OutputUHDFeedback_new 50055 2048000)\<lparr>burst_state := SaveTransmitFrame, burst_num_samples := 1\<rparr>)
     = (None, (OutputUHDFeedback_new 50055 2048000)
                \<lparr>burst_state := SaveReceiveFrame, burst_num_samples := 1,
                 burst_tx_samples := [9, 10, 11, 12, 13, 14, 15, 16],
                 burst_tx_second := 1, burst_tx_pps := 14,
                 burst_rx_second := 1, burst_rx_pps := 14\<rparr>)"
proof -
  let ?fb = "(OutputUHDFeedback_new 50055 2048000)\<lparr>burst_state := SaveTransmitFrame, burst_num_samples := 1\<rparr>"
  let ?ts = "ts0\<lparr>timestamp_pps := 16383990\<rparr>"
  have run: "m_running ?fb" by (simp add: OutputUHDFeedback_new_def)
  have whole: "length (bytes16 @ bytes16) mod sizeof_complexf = 0"
    by (simp add: bytes16_def sizeof_complexf_def)
  have state: "burst_state ?fb = SaveTransmitFrame" by simp
  have rate: "m_sampleRate ?fb \<noteq> 0" by (simp add: OutputUHDFeedback_new_def)
  have req: "burst_num_samples ?fb < 2 ^ 61" by simp
  have add: "frame_timestamp_add ?ts 3 2048000 = Some (?ts\<lparr>timestamp_sec := 1, timestamp_pps := 14\<rparr>)"
    by (simp add: frame_timestamp_add_def ts0_def Let_def)
  obtain r fb' where eq: "set_tx_frame (bytes16 @ bytes16) ?ts ?fb = (r, fb')"
    by (cases "set_tx_frame (bytes16 @ bytes16) ?ts ?fb")
  have unch: "m_running fb' = True \<and> m_port fb' = 50055 \<and> m_sampleRate fb' = 2048000 \<and>
      burst_rx_second fb' = burst_tx_second fb' \<and> burst_rx_pps fb' = burst_tx_pps fb'"
    using eq run whole state
    by (auto simp add: set_tx_frame_def Let_def OutputUHDFeedback_new_def split: option.splits)
  have "r = None \<and> burst_state fb' = SaveReceiveFrame \<and> burst_num_samples fb' = 1 \<and>
      burst_tx_samples fb' = [9, 10, 11, 12, 13, 14, 15, 16] \<and>
      burst_tx_second fb' = 1 \<and> burst_tx_pps fb' = 14"
    using C9_set_tx_frame [OF run whole state rate req, of ?ts] add
    unfolding eq by (simp add: bytes16_def sizeof_complexf_def OutputUHDFeedback_new_def ts0_def)
  then have "fb' = (OutputUHDFeedback_new 50055 2048000)
                \<lparr>burst_state := SaveReceiveFrame, burst_num_samples := 1,
                 burst_tx_samples := [9, 10, 11, 12, 13, 14, 15, 16],
                 burst_tx_second := 1, burst_tx_pps := 14,
                 burst_rx_second := 1, burst_rx_pps := 14\<rparr>" and "r = None"
    using unch by (simp_all add: OutputUHDFeedback_new_def)
  then show ?thesis
    using run whole eq by simp
qed


subsection \<open>The static delay\<close>

lemma new_staticDelayUs_reset:
  "tf_ms * 1000 < adjust \<Longrightarrow> new_staticDelayUs tf_ms current adjust = 0"
  by (simp add: new_staticDelayUs_def)

lemma new_staticDelayUs_wrap:
  assumes tf: "0 \<le> tf_ms" "tf_ms \<le> 96"
    and adj: "adjust \<le> tf_ms * 1000"
    and lo: "- (tf_ms * 1000) \<le> current + adjust"
    and hi: "current + adjust \<le> 2 * (tf_ms * 1000)"
  shows "new_staticDelayUs tf_ms current adjust =
           (if tf_ms * 1000 < current + adjust then current + adjust - tf_ms * 1000
            else if current + adjust < 0 then current + adjust + tf_ms * 1000
            else current + adjust) \<and>
         0 \<le> new_staticDelayUs tf_ms current adjust \<and>
         new_staticDelayUs tf_ms current adjust \<le> tf_ms * 1000 \<and>
         new_staticDelayUs tf_ms current adjust mod (tf_ms * 1000)
           = (current + adjust) mod (tf_ms * 1000)"
proof -
  define D where "D = tf_ms * 1000"
  have D: "0 \<le> D" "D \<le> 96000"
    using tf by (simp_all add: D_def)
  have "- (2 ^ 31) \<le> current + adjust"
    using lo D by (simp add: D_def)
  moreover have "current + adjust < 2 ^ 31"
    using hi D by (simp add: D_def)
  ultimately have narrow: "signed_take_bit 31 (current + adjust) = current + adjust"
    by (rule signed_take_bit_int_eq_self)
  have eq: "new_staticDelayUs tf_ms current adjust =
      (if D < current + adjust then current + adjust - D
       else if current + adjust < 0 then current + adjust + D
       else current + adjust)"
    using adj by (simp add: new_staticDelayUs_def Let_def narrow D_def)
  have rng: "0 \<le> new_staticDelayUs tf_ms current adjust \<and> new_staticDelayUs tf_ms current adjust \<le> D"
    using lo hi unfolding eq D_def by auto
  have md: "new_staticDelayUs tf_ms current adjust mod D = (current + adjust) mod D"
    unfolding eq by (simp add: mod_diff_right_eq [symmetric])
  show ?thesis
    using eq rng md by (simp add: D_def)
qed

text \<open>
  Outside that range the wrap is not enough: a sum below \<open>-D\<close> stores a negative delay, which
  the branch's comment (reset for values outside the range) does not foresee. Starting from
  a delay of 0 with frames of 24 ms, the value \<open>-50000\<close> stores \<open>-26000\<close>, and \<open>process\<close> then
  computes a delay of 33 933 752 bytes and copies outside the frame.
\<close>

lemma staticdelay_negative_sum:
  "new_staticDelayUs 24 0 (- 50000) = - 26000 \<and>
   delayed_frame_buf (conf0\<lparr>staticDelayUs := - 26000\<rparr>) silence32 silence32
     = Inl (Undefined_behaviour ''memcpy outside the buffer'')"
proof -
  have "(word_of_int (- 26000) * (2048000 div 1000)) div 1000 * 8 = (33933752 :: u32)"
    by (simp add: word_div_def)
  then show ?thesis
    by (simp add: new_staticDelayUs_def delayed_frame_buf_def conf0_def silence32_def Let_def)
qed

text \<open>
  C4, as stated, fails: the value is added to the stored delay, so setting 500 on a
  transmitter whose stored delay is 1000 (frame duration 24 ms) stores 1500, not 500; and
  setting 24000 on a stored delay of 0 stores 24000, the frame duration itself.
\<close>

theorem C4_staticdelay_counterexample:
  "staticDelayUs (myConf (snd (OutputUHD_set_parameter ''staticdelay''
       \<lparr>reads_as_double = True, reads_as_bool = Bool_failed_storing True,
        reads_as_int64 = Some 500\<rparr>
       (uhd0\<lparr>myTFDurationMs := 24, myConf := conf0\<lparr>staticDelayUs := 1000\<rparr>\<rparr>)))) = 1500 \<and>
   (500 :: int) mod (myTFDurationMs (uhd0\<lparr>myTFDurationMs := 24\<rparr>) * 1000) = 500 \<and>
   staticDelayUs (myConf (snd (OutputUHD_set_parameter ''staticdelay''
       \<lparr>reads_as_double = True, reads_as_bool = Bool_failed_storing True,
        reads_as_int64 = Some 24000\<rparr>
       (uhd0\<lparr>myTFDurationMs := 24\<rparr>)))) = 24000"
  by (simp add: OutputUHD_set_parameter_def new_staticDelayUs_def uhd0_def conf0_def Let_def)

text \<open>
  C4, amended: for every set of \<open>staticdelay\<close> with an integer value \<open>v\<close>, with \<open>D\<close> the frame
  duration in microseconds and \<open>d\<close> the stored delay: if \<open>v\<close> is above \<open>D\<close> the stored delay
  is reset to \<open>0\<close>; if \<open>v \<le> D\<close> and the sum \<open>d + v\<close> lies in \<open>[-D, 2D]\<close> (as it does whenever
  \<open>d\<close> is in \<open>[0, D]\<close> and \<open>v \<ge> -D\<close>), for a frame duration of at most 96 ms, the sum is wrapped
  once around \<open>D\<close>: the stored delay afterwards is \<open>d + v - D\<close> if the sum is above \<open>D\<close>,
  \<open>d + v + D\<close> if it is negative and \<open>d + v\<close> otherwise; it lies in \<open>[0, D]\<close> and is congruent
  to \<open>d + v\<close> modulo \<open>D\<close>.
\<close>

theorem C4_staticdelay:
  assumes v: "reads_as_int64 v = Some adjust"
  shows "fst (OutputUHD_set_parameter ''staticdelay'' v st) = None \<and>
         (myTFDurationMs st * 1000 < adjust \<longrightarrow>
            staticDelayUs (myConf (snd (OutputUHD_set_parameter ''staticdelay'' v st))) = 0) \<and>
         (0 \<le> myTFDurationMs st \<and> myTFDurationMs st \<le> 96 \<and>
          adjust \<le> myTFDurationMs st * 1000 \<and>
          - (myTFDurationMs st * 1000) \<le> staticDelayUs (myConf st) + adjust \<and>
          staticDelayUs (myConf st) + adjust \<le> 2 * (myTFDurationMs st * 1000) \<longrightarrow>
            staticDelayUs (myConf (snd (OutputUHD_set_parameter ''staticdelay'' v st))) =
              (if myTFDurationMs st * 1000 < staticDelayUs (myConf st) + adjust
               then staticDelayUs (myConf st) + adjust - myTFDurationMs st * 1000
               else if staticDelayUs (myConf st) + adjust < 0
               then staticDelayUs (myConf st) + adjust + myTFDurationMs st * 1000
               else staticDelayUs (myConf st) + adjust) \<and>
            0 \<le> staticDelayUs (myConf (snd (OutputUHD_set_parameter ''staticdelay'' v st))) \<and>
            staticDelayUs (myConf (snd (OutputUHD_set_parameter ''staticdelay'' v st)))
              \<le> myTFDurationMs st * 1000 \<and>
            staticDelayUs (myConf (snd (OutputUHD_set_parameter ''staticdelay'' v st)))
                mod (myTFDurationMs st * 1000)
              = (staticDelayUs (myConf st) + adjust) mod (myTFDurationMs st * 1000)) \<and>
         (0 \<le> staticDelayUs (myConf st) \<and> staticDelayUs (myConf st) \<le> myTFDurationMs st * 1000 \<and>
          - (myTFDurationMs st * 1000) \<le> adjust \<and> adjust \<le> myTFDurationMs st * 1000 \<longrightarrow>
            - (myTFDurationMs st * 1000) \<le> staticDelayUs (myConf st) + adjust \<and>
            staticDelayUs (myConf st) + adjust \<le> 2 * (myTFDurationMs st * 1000))"
proof -
  have stored: "staticDelayUs (myConf (snd (OutputUHD_set_parameter ''staticdelay'' v st)))
      = new_staticDelayUs (myTFDurationMs st) (staticDelayUs (myConf st)) adjust"
    and ok: "fst (OutputUHD_set_parameter ''staticdelay'' v st) = None"
    using v by (simp_all add: OutputUHD_set_parameter_def)
  show ?thesis
    unfolding stored
    using ok new_staticDelayUs_reset [of "myTFDurationMs st" adjust "staticDelayUs (myConf st)"]
      new_staticDelayUs_wrap [of "myTFDurationMs st" adjust "staticDelayUs (myConf st)"]
    by auto
qed

theorem C4_staticdelay_witness:
  "reads_as_int64 \<lparr>reads_as_double = True, reads_as_bool = Bool_failed_storing True,
                   reads_as_int64 = Some 23500\<rparr> = Some 23500 \<and>
   (0 :: int) \<le> 24 \<and> (24 :: int) \<le> 96 \<and> (23500 :: int) \<le> 24 * 1000 \<and>
   - (24 * 1000) \<le> (1000 + 23500 :: int) \<and> (1000 + 23500 :: int) \<le> 2 * (24 * 1000) \<and>
   staticDelayUs (myConf (snd (OutputUHD_set_parameter ''staticdelay''
       \<lparr>reads_as_double = True, reads_as_bool = Bool_failed_storing True,
        reads_as_int64 = Some 23500\<rparr>
       (uhd0\<lparr>myTFDurationMs := 24, myConf := conf0\<lparr>staticDelayUs := 1000\<rparr>\<rparr>)))) = 500 \<and>
   (24 * 1000 :: int) < 30000 \<and>
   staticDelayUs (myConf (snd (OutputUHD_set_parameter ''staticdelay''
       \<lparr>reads_as_double = True, reads_as_bool = Bool_failed_storing True,
        reads_as_int64 = Some 30000\<rparr>
       (uhd0\<lparr>myTFDurationMs := 24, myConf := conf0\<lparr>staticDelayUs := 1000\<rparr>\<rparr>)))) = 0"
  using C4_staticdelay [of "\<lparr>reads_as_double = True, reads_as_bool = Bool_failed_storing True,
                             reads_as_int64 = Some 23500\<rparr>"
      23500 "uhd0\<lparr>myTFDurationMs := 24, myConf := conf0\<lparr>staticDelayUs := 1000\<rparr>\<rparr>"]
    C4_staticdelay [of "\<lparr>reads_as_double = True, reads_as_bool = Bool_failed_storing True,
                             reads_as_int64 = Some 30000\<rparr>"
      30000 "uhd0\<lparr>myTFDurationMs := 24, myConf := conf0\<lparr>staticDelayUs := 1000\<rparr>\<rparr>"]
  by (simp add: uhd0_def conf0_def)

subsection \<open>Loading coefficients\<close>





text \<open>\<open>load_coefficients\<close>, once the file is open, in terms of the first two extractions.\<close>

lemma load_coefficients_opened:
  assumes opened: "fs coefFile = Some s0"
    and e1: "extract_field s0 = (v1, s1)" and e2: "extract_field s1 = (v2, s2)"
  shows "load_coefficients fs junk coefFile st =
     (if stored_uint32 (junk_uint32 junk) v1 = 1 then
        (if stored_int (junk_int junk) v2 \<le> 0
         then (Some (Runtime_error ''MemlessPoly: coefs file has invalid format.''), st)
         else if stored_int (junk_int junk) v2 \<noteq> NUM_COEFS
         then (Some (Runtime_error ''MemlessPoly: invalid number of coefs''), st)
         else
           (case read_poly_coefs (junk_float junk) (nat (stored_int (junk_int junk) v2))
                   (2 * nat (stored_int (junk_int junk) v2)) 0 s2
                   (replicate (nat (stored_int (junk_int junk) v2)) 0)
                   (replicate (nat (stored_int (junk_int junk) v2)) 0) of
              Inl e \<Rightarrow> (Some e, st)
            | Inr (coefs_am, coefs_pm) \<Rightarrow>
                (None, st\<lparr>m_dpd_type := odd_only_poly, m_coefs_am := coefs_am,
                           m_coefs_pm := coefs_pm, m_dpd_settings_valid := True\<rparr>)))
      else if stored_uint32 (junk_uint32 junk) v1 = 2 then
        (None, st\<lparr>m_dpd_type := lookup_table,
                   m_lut_scalefactor := stored_float (junk_float junk) v2,
                   m_lut := read_lut (junk_float junk) 0 s2 (replicate lut_entries 0),
                   m_dpd_settings_valid := True\<rparr>)
      else (None, st\<lparr>m_dpd_settings_valid := False\<rparr>))"
  unfolding load_coefficients_def opened by (simp add: e1 e2 Let_def)







text \<open>
  The test after each coefficient is \<open>eof()\<close> alone. A token that is no number sets \<open>failbit\<close>
  and not \<open>eofbit\<close>, and every later extraction fails at once, so a polynomial file with such
  a token among its coefficients is loaded: the file \<open>1 5 1 2 x 4 5\<close> gives the coefficients
  1, 2, 0 and, for the other seven, whatever the local \<open>a\<close> held (here 99).
\<close>

lemma load_coefficients_garbage_accepted:
  "load_coefficients fs0 junk0 ''garbage'' poly_valid =
     (None, poly_valid\<lparr>m_coefs_am := [1, 2, 0, 99, 99], m_coefs_pm := [99, 99, 99, 99, 99]\<rparr>)"
proof -
  let ?s1 = "\<lparr>remaining = [Field 5 5 5, Field 1 1 1, Field 2 2 2, Garbage, Field 4 4 4, Field 5 5 5],
              ends_with_ws = True, eofbit = False, failbit = False\<rparr> :: int ifstream"
  let ?s2 = "\<lparr>remaining = [Field 1 1 1, Field 2 2 2, Garbage, Field 4 4 4, Field 5 5 5],
              ends_with_ws = True, eofbit = False, failbit = False\<rparr> :: int ifstream"
  have opened: "fs0 ''garbage'' = Some garbage_poly_file"
    by (simp add: fs0_def)
  have e1: "extract_field garbage_poly_file = (Read 1 1 1, ?s1)"
    by (simp add: extract_field_def garbage_poly_file_def)
  have e2: "extract_field ?s1 = (Read 5 5 5, ?s2)"
    by (simp add: extract_field_def)
  have loop: "read_poly_coefs 99 5 10 0 ?s2 (replicate 5 0) (replicate 5 0)
      = Inr ([1, 2, 0, 99, 99], [99, 99, 99, 99, 99])"
    by (simp add: read_poly_coefs.simps extract_field_def stored_float_def Let_def
        eval_nat_numeral)
  show ?thesis
    unfolding load_coefficients_opened [where fs = fs0 and coefFile = "''garbage''", OF opened e1 e2]
    using loop by (simp add: stored_uint32_def stored_int_def NUM_COEFS_def junk0_def poly_valid_def)
qed




subsection \<open>Processing without valid settings\<close>

lemma length_Buffer_setLength: "length (Buffer_setLength len fresh b) = len"
  by (auto simp add: Buffer_setLength_def min_def)

lemma internal_process_length:
  "fst (internal_process predistort fresh st dataIn dataOut0) = length dataIn \<and>
   (\<not> m_dpd_settings_valid st \<longrightarrow>
      length (snd (internal_process predistort fresh st dataIn dataOut0)) = length dataIn)"
proof -
  have "length dataIn div sizeof_complexf \<le> length dataIn"
    by simp
  then show ?thesis
    by (simp add: internal_process_def Let_def length_Buffer_setLength min_absorb2)
qed

lemma internal_process_invalid_prefix:
  "\<not> m_dpd_settings_valid st \<Longrightarrow>
     take (length dataIn div sizeof_complexf) (snd (internal_process predistort fresh st dataIn dataOut0))
       = take (length dataIn div sizeof_complexf) dataIn"
proof -
  have "length dataIn div sizeof_complexf \<le> length dataIn"
    by simp
  then show "\<not> m_dpd_settings_valid st \<Longrightarrow>
     take (length dataIn div sizeof_complexf) (snd (internal_process predistort fresh st dataIn dataOut0))
       = take (length dataIn div sizeof_complexf) dataIn"
    by (simp add: internal_process_def Let_def length_Buffer_setLength min_absorb2)
qed

text \<open>
  C2 does not hold of the code. Without valid settings \<open>internal_process\<close> gives the output
  buffer the length of the input, but it copies only \<open>sizeOut\<close> bytes, the number of samples,
  instead of that many samples: for an input of two samples (16 bytes) and an output buffer
  that starts out empty, two bytes are copied and the other fourteen are whatever the buffer
  holds (here \<open>0\<close>), so the output differs from the input.
\<close>

theorem C2_passthrough_copies_sample_count_bytes:
  "internal_process predistort0 0 poly0 bytes16 []
     = (16, [1, 2, 0, 0, 0, 0, 0, 0, 0, 0, 0, 0, 0, 0, 0, 0]) \<and>
   snd (internal_process predistort0 0 poly0 bytes16 []) \<noteq> bytes16"
  by (simp add: internal_process_def Buffer_setLength_def poly0_def bytes16_def
      sizeof_complexf_def Let_def)


end
